theory Spec2Isabelle
  imports Complex_Main "HOL-Library.Word"
begin

section \<open>Data model of \<open>main.cpp\<close>\<close>

text \<open>
  The program is a single C++ file. Its \<open>float\<close> values are modelled as real numbers:
  rounding, infinities and NaN are not represented, so every statement about a computed
  coordinate or depth is a statement about the exact value of the expression the code
  evaluates. A division whose divisor can be zero is guarded by a hypothesis where it
  matters, since \<open>x / 0 = 0\<close> in HOL and not in IEEE arithmetic.

  \<open>int\<close> is modelled as \<open>int\<close> with the 32-bit range written out, \<open>unsigned int\<close> as
  \<open>32 word\<close>, \<open>unsigned char\<close> as \<open>8 word\<close> and \<open>unsigned short\<close> as \<open>16 word\<close>.
\<close>

type_synonym vec3 = "real \<times> real \<times> real"

record vertex_t =
  position :: vec3
  color :: vec3

record depth_cloud_result_t =
  vertices :: "vertex_t list"
  max_depth :: real

record camera_t =
  origin :: vec3
  distance :: real
  pitch :: real
  yaw :: real
  rotate_speed :: real
  pan_speed :: real
  zoom_scale :: real

text \<open>
  Every fallible function of the source returns \<open>std::expected<T, std::string>\<close>; the
  error alternative is \<open>Unexpected\<close> with the message. \<open>Undefined_behaviour\<close> is not a
  value the C++ returns: it marks a run that reads outside a buffer or overflows a signed
  integer, where the language defines no result.
\<close>

datatype error = Unexpected string | Undefined_behaviour

subsection \<open>Machine integers\<close>

definition int32_ok :: "int \<Rightarrow> bool" where
  "int32_ok x \<longleftrightarrow> - (2 ^ 31) \<le> x \<and> x < 2 ^ 31"

text \<open>Conversion of an out-of-range value to \<open>int\<close>: reduction modulo \<open>2 ^ 32\<close>.\<close>

definition int32 :: "int \<Rightarrow> int" where
  "int32 x = (x + 2 ^ 31) mod 2 ^ 32 - 2 ^ 31"

text \<open>
  \<open>v += stride\<close> with \<open>int v\<close> and \<open>unsigned int stride\<close>: both operands are converted to
  \<open>unsigned int\<close>, added modulo \<open>2 ^ 32\<close>, and the sum is converted back to \<open>int\<close>.
\<close>

definition add_stride :: "int \<Rightarrow> 32 word \<Rightarrow> int" where
  "add_stride v stride = int32 (v + uint stride)"

subsection \<open>Decoded images and their buffers\<close>

text \<open>
  What \<open>stbi_load\<close> and \<open>stbi_load_16\<close> hand back for a decodable file: width, height, the
  channel count of the file, and the sample buffer. Both calls of the source request
  three components per pixel, so a decoder (an external library, taken as a parameter)
  returns a buffer of \<open>width * height * 3\<close> samples; \<open>decoded_ok\<close> states this contract.
\<close>

record 'a image =
  width :: int
  height :: int
  channels :: int
  pixels :: "'a list"

type_synonym 'a decoder = "string \<Rightarrow> 'a image option"

definition decoded_ok :: "'a image \<Rightarrow> bool" where
  "decoded_ok img \<longleftrightarrow>
     0 < width img \<and> 0 < height img \<and> width img * height img * 3 < 2 ^ 31 \<and>
     int (length (pixels img)) = width img * height img * 3"

text \<open>
  A file with one channel, decoded with three requested components: the decoder copies each
  gray sample of the file's single-channel raster into the three components of its pixel.
\<close>

definition gray_to_rgb :: "'a list \<Rightarrow> 'a list" where
  "gray_to_rgb grays = concat (map (\<lambda>g. [g, g, g]) grays)"

text \<open>The buffers handed out by the decoder and not yet passed to \<open>stbi_image_free\<close>.\<close>

record image_heap =
  next_buffer :: nat
  live_buffers :: "nat set"

definition heap_ok :: "image_heap \<Rightarrow> bool" where
  "heap_ok hp \<longleftrightarrow> (\<forall>p \<in> live_buffers hp. p < next_buffer hp)"

definition allocate :: "image_heap \<Rightarrow> image_heap" where
  "allocate hp =
     hp\<lparr>next_buffer := Suc (next_buffer hp),
        live_buffers := insert (next_buffer hp) (live_buffers hp)\<rparr>"

definition stbi_load ::
  "'a decoder \<Rightarrow> string \<Rightarrow> image_heap \<Rightarrow> (nat \<times> 'a image) option \<times> image_heap" where
  "stbi_load dec path hp =
     (case dec path of
        None \<Rightarrow> (None, hp)
      | Some img \<Rightarrow> (Some (next_buffer hp, img), allocate hp))"

definition stbi_load_16 ::
  "16 word decoder \<Rightarrow> string \<Rightarrow> image_heap \<Rightarrow> (nat \<times> 16 word image) option \<times> image_heap" where
  "stbi_load_16 dec path hp = stbi_load dec path hp"

definition stbi_image_free :: "nat \<Rightarrow> image_heap \<Rightarrow> image_heap" where
  "stbi_image_free p hp = hp\<lparr>live_buffers := live_buffers hp - {p}\<rparr>"

text \<open>Reading \<open>buf[i]\<close> with an \<open>int\<close> index: outside the buffer the behaviour is undefined.\<close>

definition read_at :: "'a list \<Rightarrow> int \<Rightarrow> error + 'a" where
  "read_at buf i =
     (if int32_ok i \<and> 0 \<le> i \<and> i < int (length buf) then Inr (buf ! nat i)
      else Inl Undefined_behaviour)"

section \<open>Depth reconstruction: \<open>generate_depth_cloud\<close>\<close>

definition image_read_error :: string where
  "image_read_error = ''Failed to read image or depth map.''"

definition format_error :: string where
  "format_error = ''Image and depth map not same resolution or invalid channel count.''"

text \<open>
  The body of the inner loop at pixel \<open>(u, v)\<close>, on the accumulated vertices and the running
  maximum. The first test is the \<open>continue\<close> guard. The signed expressions
  \<open>(u + v * w1) * ch1\<close>, \<open>w1 - u\<close> and \<open>h1 - v\<close> must not overflow.
\<close>

definition depth_cloud_body ::
  "8 word list \<Rightarrow> 16 word list \<Rightarrow> int \<Rightarrow> int \<Rightarrow> int \<Rightarrow> real \<Rightarrow> int \<Rightarrow> int \<Rightarrow>
   vertex_t list \<times> real \<Rightarrow> error + vertex_t list \<times> real" where
  "depth_cloud_body pixels1 pixels2 w1 h1 ch1 focal_length v u acc =
     (if v \<ge> h1 \<or> u \<ge> w1 then Inr acc
      else if \<not> (int32_ok (v * w1) \<and> int32_ok (u + v * w1) \<and> int32_ok ((u + v * w1) * ch1)
                \<and> int32_ok (w1 - u) \<and> int32_ok (h1 - v))
      then Inl Undefined_behaviour
      else
        let index = (u + v * w1) * ch1;
            center_w = real_of_int w1 * (1 / 2);
            center_h = real_of_int h1 * (1 / 2)
        in (case read_at pixels1 index of Inl e \<Rightarrow> Inl e | Inr r \<Rightarrow>
           (case read_at pixels1 (index + 1) of Inl e \<Rightarrow> Inl e | Inr g \<Rightarrow>
           (case read_at pixels1 (index + 2) of Inl e \<Rightarrow> Inl e | Inr b \<Rightarrow>
           (case read_at pixels2 index of Inl e \<Rightarrow> Inl e | Inr gray \<Rightarrow>
             let depth = real (unat gray) / 255;
                 max_depth' = (if depth > snd acc then depth else snd acc);
                 position' =
                   (depth * (real_of_int (w1 - u) - center_w) / focal_length,
                    depth * (real_of_int (h1 - v) - center_h) / focal_length,
                    depth);
                 color' = (real (unat r) / 255, real (unat g) / 255, real (unat b) / 255)
             in Inr (fst acc @ [\<lparr>position = position', color = color'\<rparr>], max_depth'))))))"

text \<open>The inner loop \<open>for (int u = 0; u < w1; u += stride)\<close>, entered at \<open>u\<close>.\<close>

partial_function (option) depth_cloud_cols ::
  "8 word list \<Rightarrow> 16 word list \<Rightarrow> int \<Rightarrow> int \<Rightarrow> int \<Rightarrow> real \<Rightarrow> 32 word \<Rightarrow> int \<Rightarrow> int \<Rightarrow>
   vertex_t list \<times> real \<Rightarrow> (error + vertex_t list \<times> real) option" where
  "depth_cloud_cols pixels1 pixels2 w1 h1 ch1 focal_length stride v u acc =
     (if u < w1 then
        (case depth_cloud_body pixels1 pixels2 w1 h1 ch1 focal_length v u acc of
           Inl e \<Rightarrow> Some (Inl e)
         | Inr acc' \<Rightarrow>
             depth_cloud_cols pixels1 pixels2 w1 h1 ch1 focal_length stride v
               (add_stride u stride) acc')
      else Some (Inr acc))"

text \<open>The outer loop \<open>for (int v = 0; v < h1; v += stride)\<close>, entered at \<open>v\<close>.\<close>

partial_function (option) depth_cloud_rows ::
  "8 word list \<Rightarrow> 16 word list \<Rightarrow> int \<Rightarrow> int \<Rightarrow> int \<Rightarrow> real \<Rightarrow> 32 word \<Rightarrow> int \<Rightarrow>
   vertex_t list \<times> real \<Rightarrow> (error + vertex_t list \<times> real) option" where
  "depth_cloud_rows pixels1 pixels2 w1 h1 ch1 focal_length stride v acc =
     (if v < h1 then
        (case depth_cloud_cols pixels1 pixels2 w1 h1 ch1 focal_length stride v 0 acc of
           None \<Rightarrow> None
         | Some (Inl e) \<Rightarrow> Some (Inl e)
         | Some (Inr acc') \<Rightarrow>
             depth_cloud_rows pixels1 pixels2 w1 h1 ch1 focal_length stride
               (add_stride v stride) acc')
      else Some (Inr acc))"

declare depth_cloud_cols.simps [code]
declare depth_cloud_rows.simps [code]

text \<open>
  The whole function. \<open>None\<close> is a run that never returns. The heap is the third result:
  the early return after a failed load frees nothing, the format check frees both buffers,
  and so does the normal exit. \<open>vertices.reserve\<close> only sets a capacity and is left out.
\<close>

definition generate_depth_cloud ::
  "8 word decoder \<Rightarrow> 16 word decoder \<Rightarrow> string \<Rightarrow> string \<Rightarrow> real \<Rightarrow> 32 word \<Rightarrow>
   image_heap \<Rightarrow> ((error + depth_cloud_result_t) \<times> image_heap) option" where
  "generate_depth_cloud dec8 dec16 image_path depth_path focal_length stride hp =
     (case stbi_load dec8 image_path hp of (pixels1, hp1) \<Rightarrow>
     (case stbi_load_16 dec16 depth_path hp1 of (pixels2, hp2) \<Rightarrow>
     (case (pixels1, pixels2) of
        (Some (p1, img), Some (p2, dep)) \<Rightarrow>
          if width img \<noteq> width dep \<or> height img \<noteq> height dep
             \<or> channels img \<noteq> 3 \<or> channels dep \<noteq> 1
          then Some (Inl (Unexpected format_error),
                     stbi_image_free p2 (stbi_image_free p1 hp2))
          else
            (case depth_cloud_rows (pixels img) (pixels dep) (width img) (height img)
                    (channels img) focal_length stride 0 ([], 0) of
               None \<Rightarrow> None
             | Some (Inl e) \<Rightarrow> Some (Inl e, hp2)
             | Some (Inr acc) \<Rightarrow>
                 Some (Inr \<lparr>vertices = fst acc, max_depth = snd acc\<rparr>,
                       stbi_image_free p2 (stbi_image_free p1 hp2)))
      | _ \<Rightarrow> Some (Inl (Unexpected image_read_error), hp2))))"

section \<open>Shader program builder: \<open>create_shader\<close> and \<open>create_program\<close>\<close>

text \<open>
  The OpenGL state the builder touches: the names handed out so far, the shader objects the
  application holds (created by \<open>glCreateShader\<close> and not yet passed to
  \<open>glDeleteShader\<close>, with their type and source) and the program objects it holds.
  Shader and program objects share one name space. A shader that is still attached to a
  program when \<open>glDeleteShader\<close> is called is destroyed by the driver only when it is
  detached; the application's handle is given up at the call, and that is what
  \<open>shader_objects\<close> records.

  The file system, the shader compiler and the linker are parameters: a file has contents or
  is unreadable, and a compilation or a link succeeds (\<open>None\<close>) or fails with an info log.
\<close>

datatype shader_type = GL_VERTEX_SHADER | GL_FRAGMENT_SHADER

record gl_state =
  next_name :: nat
  shader_objects :: "nat \<rightharpoonup> shader_type \<times> string"
  program_objects :: "nat set"

type_synonym files = "string \<Rightarrow> string option"
type_synonym compiler = "shader_type \<Rightarrow> string \<Rightarrow> string option"
type_synonym linker =
  "(shader_type \<times> string) option \<Rightarrow> (shader_type \<times> string) option \<Rightarrow> string option"

definition gl_ok :: "gl_state \<Rightarrow> bool" where
  "gl_ok gl \<longleftrightarrow> (\<forall>n \<in> dom (shader_objects gl). n < next_name gl)"

definition read_file_contents :: "files \<Rightarrow> string \<Rightarrow> string + string" where
  "read_file_contents fsys path =
     (case fsys path of
        None \<Rightarrow> Inl (''Failed to read contents of file '' @ path)
      | Some contents \<Rightarrow> Inr contents)"

definition glCreateShader :: "shader_type \<Rightarrow> gl_state \<Rightarrow> nat \<times> gl_state" where
  "glCreateShader ty gl =
     (next_name gl,
      gl\<lparr>next_name := Suc (next_name gl),
         shader_objects := (shader_objects gl)(next_name gl \<mapsto> (ty, []))\<rparr>)"

definition glShaderSource :: "nat \<Rightarrow> string \<Rightarrow> gl_state \<Rightarrow> gl_state" where
  "glShaderSource n src gl =
     (case shader_objects gl n of
        None \<Rightarrow> gl
      | Some (ty, old_src) \<Rightarrow> gl\<lparr>shader_objects := (shader_objects gl)(n \<mapsto> (ty, src))\<rparr>)"

definition glDeleteShader :: "nat \<Rightarrow> gl_state \<Rightarrow> gl_state" where
  "glDeleteShader n gl = gl\<lparr>shader_objects := (shader_objects gl)(n := None)\<rparr>"

definition glCreateProgram :: "gl_state \<Rightarrow> nat \<times> gl_state" where
  "glCreateProgram gl =
     (next_name gl,
      gl\<lparr>next_name := Suc (next_name gl),
         program_objects := insert (next_name gl) (program_objects gl)\<rparr>)"

definition glDeleteProgram :: "nat \<Rightarrow> gl_state \<Rightarrow> gl_state" where
  "glDeleteProgram n gl = gl\<lparr>program_objects := program_objects gl - {n}\<rparr>"

text \<open>
  \<open>create_shader(type, src)\<close>. The compiler's verdict stands for \<open>glCompileShader\<close>, the
  query of \<open>GL_COMPILE_STATUS\<close> and, on failure, the info log as the code copies it.
\<close>

definition create_shader ::
  "compiler \<Rightarrow> shader_type \<Rightarrow> string \<Rightarrow> gl_state \<Rightarrow> (string + nat) \<times> gl_state" where
  "create_shader cc ty src gl =
     (case glCreateShader ty gl of (ident, gl1) \<Rightarrow>
       (let gl2 = glShaderSource ident src gl1
        in case cc ty src of
             Some info_log \<Rightarrow>
               (Inl (''Shader compilation error: '' @ info_log), glDeleteShader ident gl2)
           | None \<Rightarrow> (Inr ident, gl2)))"

text \<open>
  \<open>create_program(GLuint vs, GLuint fs)\<close>: create, attach both shaders, link, and delete
  the program when the link failed. The linker's verdict depends on the two attached
  shader objects.
\<close>

definition create_program_linked ::
  "linker \<Rightarrow> nat \<Rightarrow> nat \<Rightarrow> gl_state \<Rightarrow> (string + nat) \<times> gl_state" where
  "create_program_linked ld vs fs gl =
     (case glCreateProgram gl of (program, gl1) \<Rightarrow>
       (case ld (shader_objects gl1 vs) (shader_objects gl1 fs) of
          Some info_log \<Rightarrow>
            (Inl (''Shader program linking error: '' @ info_log), glDeleteProgram program gl1)
        | None \<Rightarrow> (Inr program, gl1)))"

text \<open>\<open>create_program(vs_path, fs_path)\<close>, the overload that builds from two files.\<close>

definition create_program ::
  "files \<Rightarrow> compiler \<Rightarrow> linker \<Rightarrow> string \<Rightarrow> string \<Rightarrow> gl_state \<Rightarrow>
   (string + nat) \<times> gl_state" where
  "create_program fsys cc ld vs_path fs_path gl =
     (case read_file_contents fsys vs_path of
        Inl e \<Rightarrow> (Inl e, gl)
      | Inr vs_src \<Rightarrow>
     (case read_file_contents fsys fs_path of
        Inl e \<Rightarrow> (Inl e, gl)
      | Inr fs_src \<Rightarrow>
     (case create_shader cc GL_VERTEX_SHADER vs_src gl of
        (Inl e, gl1) \<Rightarrow> (Inl e, gl1)
      | (Inr vs, gl1) \<Rightarrow>
     (case create_shader cc GL_FRAGMENT_SHADER fs_src gl1 of
        (Inl e, gl2) \<Rightarrow> (Inl e, glDeleteShader vs gl2)
      | (Inr fs, gl2) \<Rightarrow>
     (case create_program_linked ld vs fs gl2 of
        (program, gl3) \<Rightarrow>
          (let gl4 = glDeleteShader fs (glDeleteShader vs gl3)
           in case program of
                Inl e \<Rightarrow> (Inl e, gl4)
              | Inr p \<Rightarrow> (Inr p, gl4)))))))"

section \<open>The session in \<open>main\<close>\<close>

text \<open>
  The local variables of \<open>main\<close> that the two event handlers below read or write, and the
  data store of the per-instance buffer \<open>point_cloud_vbo\<close>, which stays bound to
  \<open>GL_ARRAY_BUFFER\<close> from start-up on. \<open>error_popup\<close> stands for the effect of
  \<open>ImGui::OpenPopup("Error")\<close>. The local \<open>vertices\<close> is the field \<open>cloud\<close>, and the two
  sliders are \<open>ui_focal_length\<close> and \<open>ui_stride\<close> (an \<open>int\<close>, converted to
  \<open>unsigned int\<close> at the call).
\<close>

record session =
  camera :: camera_t
  cloud :: "vertex_t list option"
  image_file_str :: string
  depth_file_str :: string
  ui_focal_length :: real
  ui_stride :: int
  last_error_message :: string
  error_popup :: bool
  point_cloud_vbo :: "vertex_t list"

text \<open>The handler of the button \<open>Generate\<close>.\<close>

definition generate_button ::
  "8 word decoder \<Rightarrow> 16 word decoder \<Rightarrow> session \<Rightarrow> image_heap \<Rightarrow>
   ((error + session) \<times> image_heap) option" where
  "generate_button dec8 dec16 s hp =
     (case generate_depth_cloud dec8 dec16 (image_file_str s) (depth_file_str s)
             (ui_focal_length s) (word_of_int (ui_stride s)) hp of
        None \<Rightarrow> None
      | Some (Inl (Unexpected msg), hp') \<Rightarrow>
          Some (Inr (s\<lparr>last_error_message := msg, error_popup := True\<rparr>), hp')
      | Some (Inl Undefined_behaviour, hp') \<Rightarrow> Some (Inl Undefined_behaviour, hp')
      | Some (Inr result, hp') \<Rightarrow>
          Some (Inr (s\<lparr>cloud := Some (vertices result),
                      camera := (camera s)\<lparr>origin := (0, 0, max_depth result)\<rparr>,
                      point_cloud_vbo := vertices result\<rparr>), hp'))"

text \<open>The handler of \<open>SDL_MOUSEWHEEL\<close>, on the wheel movement \<open>event.wheel.y\<close>.\<close>

definition mouse_wheel :: "int \<Rightarrow> camera_t \<Rightarrow> camera_t" where
  "mouse_wheel y cam =
     (let cam1 =
        (if y > 0 then cam\<lparr>distance := distance cam / (1 + zoom_scale cam)\<rparr>
         else if y < 0 then cam\<lparr>distance := distance cam * (1 + zoom_scale cam)\<rparr>
         else cam)
      in cam1\<lparr>distance := max 0 (distance cam1)\<rparr>)"

text \<open>The camera \<open>main\<close> starts with.\<close>

definition initial_camera :: camera_t where
  "initial_camera =
     \<lparr>origin = (0, 0, 0), distance = 5, pitch = 0, yaw = 90,
      rotate_speed = 1 / 10, pan_speed = 5 / 1000, zoom_scale = 1 / 10\<rparr>"

section \<open>Notions used to state the results\<close>

text \<open>
  A pair of decoded images that passes the format check of \<open>generate_depth_cloud\<close>: both
  buffers as the decoder contract gives them, same resolution, a three-channel colour file
  and a one-channel depth file.
\<close>

definition valid_pair :: "8 word image \<Rightarrow> 16 word image \<Rightarrow> bool" where
  "valid_pair img dep \<longleftrightarrow>
     decoded_ok img \<and> decoded_ok dep \<and> width img = width dep \<and> height img = height dep \<and>
     channels img = 3 \<and> channels dep = 1"

text \<open>The heap after both buffers were loaded and both were freed again.\<close>

definition both_freed :: "image_heap \<Rightarrow> image_heap" where
  "both_freed hp =
     stbi_image_free (next_buffer (allocate hp))
       (stbi_image_free (next_buffer hp) (allocate (allocate hp)))"

text \<open>
  The values the loop body computes at pixel \<open>(u, v)\<close> of a three-channel colour buffer and
  of the depth buffer: the depth read at \<open>index = (u + v * w1) * 3\<close>, the colour, and the
  vertex.
\<close>

definition depth_at :: "16 word list \<Rightarrow> int \<Rightarrow> int \<times> int \<Rightarrow> real" where
  "depth_at pixels2 w1 p =
     (case p of (u, v) \<Rightarrow> real (unat (pixels2 ! nat ((u + v * w1) * 3))) / 255)"

definition color_at :: "8 word list \<Rightarrow> int \<Rightarrow> int \<times> int \<Rightarrow> vec3" where
  "color_at pixels1 w1 p =
     (case p of (u, v) \<Rightarrow>
       (real (unat (pixels1 ! nat ((u + v * w1) * 3))) / 255,
        real (unat (pixels1 ! nat ((u + v * w1) * 3 + 1))) / 255,
        real (unat (pixels1 ! nat ((u + v * w1) * 3 + 2))) / 255))"

definition vertex_at ::
  "8 word list \<Rightarrow> 16 word list \<Rightarrow> int \<Rightarrow> int \<Rightarrow> real \<Rightarrow> int \<times> int \<Rightarrow> vertex_t" where
  "vertex_at pixels1 pixels2 w1 h1 focal_length p =
     (case p of (u, v) \<Rightarrow>
       \<lparr>position =
          (depth_at pixels2 w1 (u, v) * (real_of_int (w1 - u) - real_of_int w1 / 2) / focal_length,
           depth_at pixels2 w1 (u, v) * (real_of_int (h1 - v) - real_of_int h1 / 2) / focal_length,
           depth_at pixels2 w1 (u, v)),
        color = color_at pixels1 w1 (u, v)\<rparr>)"

text \<open>
  The values of a loop variable that starts at \<open>u\<close> and grows by \<open>s\<close> while it is below
  \<open>n\<close>, without wrap-around; the pixels of one row, and the rows from \<open>v\<close> on.
\<close>

function strided :: "int \<Rightarrow> int \<Rightarrow> int \<Rightarrow> int list" where
  "strided s n u = (if 0 < s \<and> u < n then u # strided s n (u + s) else [])"
  by pat_completeness auto
termination
  by (relation "measure (\<lambda>(s, n, u). nat (n - u))") auto

declare strided.simps [simp del]

definition row_pixels :: "int \<Rightarrow> int \<Rightarrow> int \<Rightarrow> (int \<times> int) list" where
  "row_pixels s w v = map (\<lambda>u. (u, v)) (strided s w 0)"

definition visited_from :: "int \<Rightarrow> int \<Rightarrow> int \<Rightarrow> int \<Rightarrow> (int \<times> int) list" where
  "visited_from s w h v = concat (map (row_pixels s w) (strided s h v))"

text \<open>
  The strided grid in row-major order: row \<open>i\<close> and column \<open>j\<close> of the grid is the pixel
  \<open>(j * s, i * s)\<close>, for \<open>i\<close> below \<open>ceil (h / s)\<close> and \<open>j\<close> below \<open>ceil (w / s)\<close>.
\<close>

definition ceil_div :: "int \<Rightarrow> int \<Rightarrow> nat" where
  "ceil_div n s = nat \<lceil>real_of_int n / real_of_int s\<rceil>"

definition visited_pixels :: "int \<Rightarrow> int \<Rightarrow> int \<Rightarrow> (int \<times> int) list" where
  "visited_pixels s w h =
     concat (map (\<lambda>i. map (\<lambda>j. (int j * s, int i * s)) [0..<ceil_div w s]) [0..<ceil_div h s])"

text \<open>The state of the inner loop in which a stride of zero keeps it forever.\<close>

definition stuck_at ::
  "8 word list \<Rightarrow> 16 word list \<Rightarrow> int \<Rightarrow> int \<Rightarrow> int \<Rightarrow> 32 word \<Rightarrow> int \<Rightarrow> int \<Rightarrow> bool" where
  "stuck_at pixels1 pixels2 w h ch stride v u \<longleftrightarrow>
     stride = 0 \<and> ch = 3 \<and> u = 0 \<and> 0 \<le> v \<and> v < h \<and> 0 < w \<and> w * h * 3 < 2 ^ 31 \<and>
     int (length pixels1) = w * h * 3 \<and> int (length pixels2) = w * h * 3"

section \<open>Example inputs\<close>

text \<open>
  A 2 by 2 colour image and a depth map of the same size whose four pixels have the depths
  1, 2, 3 and 4; a 1 by 1 depth map; the paths under which the decoders find them; a heap
  with no buffer; a session that names a depth file which does not decode.
\<close>

definition example_color :: "8 word image" where
  "example_color =
     \<lparr>width = 2, height = 2, channels = 3,
      pixels = [255, 0, 0, 0, 255, 0, 0, 0, 255, 255, 255, 255]\<rparr>"

definition example_depth :: "16 word image" where
  "example_depth =
     \<lparr>width = 2, height = 2, channels = 1,
      pixels = [255, 255, 255, 510, 510, 510, 765, 765, 765, 1020, 1020, 1020]\<rparr>"

definition small_depth :: "16 word image" where
  "small_depth = \<lparr>width = 1, height = 1, channels = 1, pixels = [255, 255, 255]\<rparr>"

definition example_dec8 :: "8 word decoder" where
  "example_dec8 path = (if path = ''color.png'' then Some example_color else None)"

definition example_dec16 :: "16 word decoder" where
  "example_dec16 path =
     (if path = ''depth.png'' then Some example_depth
      else if path = ''small.png'' then Some small_depth
      else None)"

text \<open>The point cloud of the example pair at focal length 1 and stride 1.\<close>

definition example_cloud :: depth_cloud_result_t where
  "example_cloud =
     \<lparr>vertices =
        [\<lparr>position = (1, 1, 1), color = (1, 0, 0)\<rparr>,
         \<lparr>position = (0, 2, 2), color = (0, 1, 0)\<rparr>,
         \<lparr>position = (3, 0, 3), color = (0, 0, 1)\<rparr>,
         \<lparr>position = (0, 0, 4), color = (1, 1, 1)\<rparr>],
      max_depth = 4\<rparr>"

definition empty_heap :: image_heap where
  "empty_heap = \<lparr>next_buffer = 0, live_buffers = {}\<rparr>"

definition example_session :: session where
  "example_session =
     \<lparr>camera = initial_camera, cloud = None, image_file_str = ''color.png'',
      depth_file_str = ''missing.png'', ui_focal_length = 1400, ui_stride = 4,
      last_error_message = [], error_popup = False, point_cloud_vbo = []\<rparr>"

text \<open>
  Two shader files of which the second does not compile, a compiler that rejects exactly that
  source, a linker that accepts everything, and an OpenGL state that holds one shader.
\<close>

definition example_files :: files where
  "example_files path =
     (if path = ''shader.vs'' then Some ''void main() {}''
      else if path = ''shader.fs'' then Some ''void main() {''
      else None)"

definition example_compiler :: compiler where
  "example_compiler ty src = (if src = ''void main() {'' then Some ''syntax error'' else None)"

definition example_linker :: linker where
  "example_linker vs fs = None"

definition example_gl :: gl_state where
  "example_gl =
     \<lparr>next_name = 2, shader_objects = [1 \<mapsto> (GL_VERTEX_SHADER, ''old'')],
      program_objects = {}\<rparr>"

section \<open>Machine arithmetic and buffer reads\<close>

lemma int32_id: "int32_ok x \<Longrightarrow> int32 x = x"
  by (simp add: int32_ok_def int32_def)

lemma add_stride_plain:
  assumes "0 \<le> u" "u + uint stride < 2 ^ 31"
  shows "add_stride u stride = u + uint stride"
proof -
  have "0 \<le> uint stride" by simp
  with assms have "int32_ok (u + uint stride)" unfolding int32_ok_def by linarith
  then show ?thesis unfolding add_stride_def by (rule int32_id)
qed

lemma index_bounds:
  fixes u v w h :: int
  assumes "0 \<le> u" "u < w" "0 \<le> v" "v < h"
  shows "0 \<le> v * w" "u + v * w < w * h" "w \<le> w * h" "h \<le> w * h"
proof -
  have w: "0 < w" and h: "0 < h" using assms by simp_all
  show a: "0 \<le> v * w" using assms w by simp
  have b: "v * w \<le> (h - 1) * w" using assms w by (intro mult_right_mono) auto
  have "(h - 1) * w = w * h - w" by (simp add: algebra_simps)
  with b show "u + v * w < w * h" using assms by linarith
  have "w * 1 \<le> w * h" using w h by (intro mult_left_mono) auto
  then show "w \<le> w * h" by simp
  have "1 * h \<le> w * h" using w h by (intro mult_right_mono) auto
  then show "h \<le> w * h" by simp
qed

lemma read_at_inside:
  "0 \<le> i \<Longrightarrow> i < int (length buf) \<Longrightarrow> int (length buf) < 2 ^ 31 \<Longrightarrow>
   read_at buf i = Inr (buf ! nat i)"
  by (simp add: read_at_def int32_ok_def)

lemma depth_cloud_body_ok:
  assumes "0 \<le> u" "u < w" "0 \<le> v" "v < h" "w * h * 3 < 2 ^ 31"
    and "int (length pixels1) = w * h * 3" "int (length pixels2) = w * h * 3"
  shows "depth_cloud_body pixels1 pixels2 w h 3 focal_length v u acc =
           Inr (fst acc @ [vertex_at pixels1 pixels2 w h focal_length (u, v)],
                max (snd acc) (depth_at pixels2 w (u, v)))"
proof -
  note ib = index_bounds [OF assms(1-4)]
  define i where "i = (u + v * w) * 3"
  have i0: "0 \<le> i" using ib(1) assms(1) by (simp add: i_def)
  have i2: "i + 2 < w * h * 3"
  proof -
    have "u + v * w + 1 \<le> w * h" using ib(2) by simp
    then have "(u + v * w + 1) * 3 \<le> w * h * 3" by (rule mult_right_mono) simp
    then show ?thesis by (simp add: i_def algebra_simps)
  qed
  have k: "w * h * 3 < 2147483648" using assms(5) by simp
  have wh: "w * h < 2147483648" using k ib(3) assms(1,2) by linarith
  have r: "int32_ok (v * w)" "int32_ok (u + v * w)" "int32_ok i"
    "int32_ok (w - u)" "int32_ok (h - v)"
    using ib assms(1-4) i0 i2 k wh unfolding int32_ok_def i_def by (simp_all; linarith)+
  have rd: "read_at pixels1 i = Inr (pixels1 ! nat i)"
    "read_at pixels1 (i + 1) = Inr (pixels1 ! nat (i + 1))"
    "read_at pixels1 (i + 2) = Inr (pixels1 ! nat (i + 2))"
    "read_at pixels2 i = Inr (pixels2 ! nat i)"
    using i0 i2 assms(5-7) by (auto intro!: read_at_inside)
  show ?thesis
    using assms(2,4) r rd unfolding i_def
    by (simp add: depth_cloud_body_def Let_def vertex_at_def depth_at_def color_at_def max_def)
qed

section \<open>The loops without wrap-around\<close>

text \<open>
  With a stride from 1 to \<open>2 ^ 31 - 1\<close> the loop variables never wrap: a variable is 0 or at
  least the stride, and it is below a dimension that the decoder contract bounds by
  \<open>2 ^ 31 / 3\<close>.
\<close>

lemma depth_cloud_cols_run:
  assumes "0 < uint stride" "uint stride < 2 ^ 31" "0 \<le> v" "v < h" "w * h * 3 < 2 ^ 31"
    and "int (length pixels1) = w * h * 3" "int (length pixels2) = w * h * 3"
    and "0 \<le> u" "u = 0 \<or> uint stride \<le> u"
  shows "depth_cloud_cols pixels1 pixels2 w h 3 focal_length stride v u acc =
           Some (Inr (fst acc @ map (\<lambda>x. vertex_at pixels1 pixels2 w h focal_length (x, v))
                                  (strided (uint stride) w u),
                      foldl max (snd acc)
                        (map (\<lambda>x. depth_at pixels2 w (x, v)) (strided (uint stride) w u))))"
  using assms(8,9)
proof (induction "nat (w - u)" arbitrary: u acc rule: less_induct)
  case less
  let ?s = "uint stride"
  show ?case
  proof (cases "u < w")
    case False
    then show ?thesis
      by (subst depth_cloud_cols.simps) (simp add: strided.simps [of _ w u])
  next
    case True
    have body: "depth_cloud_body pixels1 pixels2 w h 3 focal_length v u acc =
        Inr (fst acc @ [vertex_at pixels1 pixels2 w h focal_length (u, v)],
             max (snd acc) (depth_at pixels2 w (u, v)))"
      using less.prems(1) True assms(3-7) by (rule depth_cloud_body_ok)
    have wh: "w \<le> w * h" using index_bounds(3) [OF less.prems(1) True assms(3,4)] .
    have k: "w * h * 3 < 2147483648" using assms(5) by simp
    have s31: "?s < 2147483648" using assms(2) by simp
    have "u + ?s < 2147483648"
    proof (cases "u = 0")
      case True
      then show ?thesis using s31 by simp
    next
      case False
      then have "?s \<le> u" using less.prems(2) by simp
      then show ?thesis using \<open>u < w\<close> wh k by linarith
    qed
    then have nowrap: "u + ?s < 2 ^ 31" by simp
    have nxt: "add_stride u stride = u + ?s"
      using less.prems(1) nowrap by (rule add_stride_plain)
    have IH: "depth_cloud_cols pixels1 pixels2 w h 3 focal_length stride v (u + ?s) acc' =
           Some (Inr (fst acc' @ map (\<lambda>x. vertex_at pixels1 pixels2 w h focal_length (x, v))
                                  (strided ?s w (u + ?s)),
                      foldl max (snd acc')
                        (map (\<lambda>x. depth_at pixels2 w (x, v)) (strided ?s w (u + ?s)))))" for acc'
      using less.prems(1) assms(1) True by (intro less.hyps) auto
    show ?thesis
      using True assms(1)
      by (subst depth_cloud_cols.simps) (simp add: body nxt IH strided.simps [of _ w u])
  qed
qed

lemma depth_cloud_cols_row:
  assumes "0 < uint stride" "uint stride < 2 ^ 31" "0 \<le> v" "v < h" "w * h * 3 < 2 ^ 31"
    and "int (length pixels1) = w * h * 3" "int (length pixels2) = w * h * 3"
  shows "depth_cloud_cols pixels1 pixels2 w h 3 focal_length stride v 0 acc =
           Some (Inr (fst acc @ map (vertex_at pixels1 pixels2 w h focal_length)
                                  (row_pixels (uint stride) w v),
                      foldl max (snd acc)
                        (map (depth_at pixels2 w) (row_pixels (uint stride) w v))))"
  using depth_cloud_cols_run [OF assms, of 0 focal_length acc]
  by (simp add: row_pixels_def comp_def)

lemma depth_cloud_rows_run:
  assumes "0 < uint stride" "uint stride < 2 ^ 31" "0 < w" "w * h * 3 < 2 ^ 31"
    and "int (length pixels1) = w * h * 3" "int (length pixels2) = w * h * 3"
    and "0 \<le> v" "v = 0 \<or> uint stride \<le> v"
  shows "depth_cloud_rows pixels1 pixels2 w h 3 focal_length stride v acc =
           Some (Inr (fst acc @ map (vertex_at pixels1 pixels2 w h focal_length)
                                  (visited_from (uint stride) w h v),
                      foldl max (snd acc)
                        (map (depth_at pixels2 w) (visited_from (uint stride) w h v))))"
  using assms(7,8)
proof (induction "nat (h - v)" arbitrary: v acc rule: less_induct)
  case less
  let ?s = "uint stride"
  show ?case
  proof (cases "v < h")
    case False
    then show ?thesis
      by (subst depth_cloud_rows.simps) (simp add: visited_from_def strided.simps [of _ h v])
  next
    case True
    note row = depth_cloud_cols_row [OF assms(1,2) less.prems(1) True assms(4-6)]
    have hw: "h \<le> w * h" using index_bounds(4) [OF _ assms(3) less.prems(1) True] by simp
    have k: "w * h * 3 < 2147483648" using assms(4) by simp
    have s31: "?s < 2147483648" using assms(2) by simp
    have "v + ?s < 2147483648"
    proof (cases "v = 0")
      case True
      then show ?thesis using s31 by simp
    next
      case False
      then have "?s \<le> v" using less.prems(2) by simp
      then show ?thesis using \<open>v < h\<close> hw k by linarith
    qed
    then have nowrap: "v + ?s < 2 ^ 31" by simp
    have nxt: "add_stride v stride = v + ?s"
      using less.prems(1) nowrap by (rule add_stride_plain)
    have IH: "depth_cloud_rows pixels1 pixels2 w h 3 focal_length stride (v + ?s) acc' =
           Some (Inr (fst acc' @ map (vertex_at pixels1 pixels2 w h focal_length)
                                  (visited_from ?s w h (v + ?s)),
                      foldl max (snd acc')
                        (map (depth_at pixels2 w) (visited_from ?s w h (v + ?s)))))" for acc'
      using less.prems(1) assms(1) True by (intro less.hyps) auto
    have unfold: "visited_from ?s w h v = row_pixels ?s w v @ visited_from ?s w h (v + ?s)"
      using True assms(1) by (simp add: visited_from_def strided.simps [of _ h v])
    show ?thesis
      using True
      by (subst depth_cloud_rows.simps) (simp add: row nxt IH unfold)
  qed
qed

section \<open>The strided grid\<close>

lemma strided_closed:
  assumes "0 < s"
  shows "strided s n u = map (\<lambda>k. u + int k * s) [0..<nat (- ((u - n) div s))]"
proof (induction "nat (n - u)" arbitrary: u rule: less_induct)
  case less
  show ?case
  proof (cases "u < n")
    case False
    then have "0 \<le> (u - n) div s" using assms by (simp add: pos_imp_zdiv_nonneg_iff)
    then show ?thesis using False by (simp add: strided.simps [of s n u])
  next
    case True
    have d: "(u + s - n) div s = (u - n) div s + 1"
      using assms by (metis add.commute add_diff_eq div_add_self1 less_irrefl)
    have neg: "(u - n) div s < 0" using True assms by (simp add: pos_imp_zdiv_neg_iff)
    then have cnt: "nat (- ((u - n) div s)) = Suc (nat (- ((u + s - n) div s)))"
      using d by simp
    have IH: "strided s n (u + s) = map (\<lambda>k. u + s + int k * s) [0..<nat (- ((u + s - n) div s))]"
      using True assms by (intro less) auto
    have shift: "map (\<lambda>k. u + int k * s) [0..<Suc m] = u # map (\<lambda>k. u + s + int k * s) [0..<m]" for m
      unfolding map_upt_Suc by (simp add: algebra_simps)
    show ?thesis
      unfolding cnt shift using True assms by (simp add: strided.simps [of s n u] IH)
  qed
qed

lemma strided_zero: "0 < s \<Longrightarrow> strided s n 0 = map (\<lambda>k. int k * s) [0..<ceil_div n s]"
  by (simp add: strided_closed ceil_div_def ceiling_divide_eq_div)

lemma visited_from_zero: "0 < s \<Longrightarrow> visited_from s w h 0 = visited_pixels s w h"
  by (simp add: visited_from_def visited_pixels_def row_pixels_def strided_zero comp_def)

lemma length_visited_pixels: "length (visited_pixels s w h) = ceil_div h s * ceil_div w s"
  by (simp add: visited_pixels_def length_concat comp_def sum_list_triv)

lemma nth_concat_grid:
  "i < r \<Longrightarrow> j < c \<Longrightarrow> concat (map (\<lambda>i. map (f i) [0..<c]) [0..<r]) ! (i * c + j) = f i j"
proof (induction r)
  case 0
  then show ?case by simp
next
  case (Suc r)
  have len: "length (concat (map (\<lambda>i. map (f i) [0..<c]) [0..<r])) = r * c"
    by (simp add: length_concat comp_def sum_list_triv)
  show ?case
  proof (cases "i < r")
    case True
    then have "Suc i \<le> r" by simp
    then have "Suc i * c \<le> r * c" by (rule mult_le_mono1)
    then have "i * c + j < r * c" using Suc.prems(2) by simp
    then show ?thesis using Suc.IH [OF True Suc.prems(2)] by (simp add: nth_append len)
  next
    case False
    then have "i = r" using Suc.prems(1) by simp
    then show ?thesis using Suc.prems(2) by (simp add: nth_append len)
  qed
qed

lemma nth_visited_pixels:
  "i < ceil_div h s \<Longrightarrow> j < ceil_div w s \<Longrightarrow>
   visited_pixels s w h ! (i * ceil_div w s + j) = (int j * s, int i * s)"
  unfolding visited_pixels_def by (rule nth_concat_grid)

lemma less_ceil_div: "0 < s \<Longrightarrow> k < ceil_div n s \<longleftrightarrow> int k * s < n"
proof -
  assume s: "0 < s"
  have "k < ceil_div n s \<longleftrightarrow> int k < \<lceil>real_of_int n / real_of_int s\<rceil>"
    unfolding ceil_div_def by linarith
  also have "\<dots> \<longleftrightarrow> real_of_int (int k) < real_of_int n / real_of_int s"
    by (rule less_ceiling_iff)
  also have "\<dots> \<longleftrightarrow> real_of_int (int k) * real_of_int s < real_of_int n"
    using s by (simp add: pos_less_divide_eq)
  also have "\<dots> \<longleftrightarrow> int k * s < n"
    by (metis of_int_less_iff of_int_mult)
  finally show ?thesis .
qed

lemma set_visited_pixels:
  assumes "0 < s"
  shows "set (visited_pixels s w h) =
           {(u, v). 0 \<le> u \<and> u < w \<and> 0 \<le> v \<and> v < h \<and> s dvd u \<and> s dvd v}"
proof (intro set_eqI iffI)
  fix p assume "p \<in> set (visited_pixels s w h)"
  then obtain i j where "i < ceil_div h s" "j < ceil_div w s" "p = (int j * s, int i * s)"
    by (auto simp: visited_pixels_def)
  then show "p \<in> {(u, v). 0 \<le> u \<and> u < w \<and> 0 \<le> v \<and> v < h \<and> s dvd u \<and> s dvd v}"
    using assms by (simp add: less_ceil_div)
next
  fix p assume "p \<in> {(u, v). 0 \<le> u \<and> u < w \<and> 0 \<le> v \<and> v < h \<and> s dvd u \<and> s dvd v}"
  then obtain u v where p: "p = (u, v)" and b: "0 \<le> u" "u < w" "0 \<le> v" "v < h"
    and d: "s dvd u" "s dvd v" by auto
  from d obtain a b' where ab: "u = a * s" "v = b' * s" by (auto simp: dvd_def mult.commute)
  have "0 \<le> a" "0 \<le> b'" using b ab assms by (simp_all add: zero_le_mult_iff)
  then obtain j i where ji: "a = int j" "b' = int i" by (metis nonneg_int_cases)
  have "j < ceil_div w s" "i < ceil_div h s" using b ab ji assms by (simp_all add: less_ceil_div)
  then show "p \<in> set (visited_pixels s w h)"
    unfolding p ab ji visited_pixels_def by (auto intro!: bexI [of _ i] image_eqI [of _ _ j])
qed

lemma foldl_max_Max: "foldl max a xs = Max (insert (a::real) (set xs))"
proof (induction xs arbitrary: a)
  case Nil
  then show ?case by simp
next
  case (Cons x xs)
  have "Max (insert (max a x) (set xs)) = Max (insert a (insert x (set xs)))"
    by (cases "set xs = {}") (simp_all add: max.assoc)
  then show ?case by (simp add: Cons.IH)
qed

section \<open>The whole reconstruction\<close>

lemma live_both_freed: "heap_ok hp \<Longrightarrow> live_buffers (both_freed hp) = live_buffers hp"
  by (auto simp: both_freed_def stbi_image_free_def heap_ok_def allocate_def)

lemma load_both:
  assumes "dec8 image_path = Some img" "dec16 depth_path = Some dep"
  shows "generate_depth_cloud dec8 dec16 image_path depth_path focal_length stride hp =
     (if width img \<noteq> width dep \<or> height img \<noteq> height dep
             \<or> channels img \<noteq> 3 \<or> channels dep \<noteq> 1
          then Some (Inl (Unexpected format_error), both_freed hp)
          else
            (case depth_cloud_rows (pixels img) (pixels dep) (width img) (height img)
                    (channels img) focal_length stride 0 ([], 0) of
               None \<Rightarrow> None
             | Some (Inl e) \<Rightarrow> Some (Inl e, allocate (allocate hp))
             | Some (Inr acc) \<Rightarrow>
                 Some (Inr \<lparr>vertices = fst acc, max_depth = snd acc\<rparr>, both_freed hp)))"
  using assms
  by (simp add: generate_depth_cloud_def stbi_load_def stbi_load_16_def both_freed_def
        split: option.splits sum.splits)

lemma generate_depth_cloud_valid:
  assumes "dec8 image_path = Some img" "dec16 depth_path = Some dep" "valid_pair img dep"
    and "0 < uint stride" "uint stride < 2 ^ 31"
  shows "generate_depth_cloud dec8 dec16 image_path depth_path focal_length stride hp =
     Some (Inr \<lparr>vertices = map (vertex_at (pixels img) (pixels dep) (width img) (height img) focal_length)
                              (visited_pixels (uint stride) (width img) (height img)),
                max_depth = foldl max 0 (map (depth_at (pixels dep) (width img))
                              (visited_pixels (uint stride) (width img) (height img)))\<rparr>,
           both_freed hp)"
proof -
  have v: "width img = width dep" "height img = height dep" "channels img = 3" "channels dep = 1"
    "0 < width img" "width img * height img * 3 < 2 ^ 31"
    "int (length (pixels img)) = width img * height img * 3"
    "int (length (pixels dep)) = width img * height img * 3"
    using assms(3) by (simp_all add: valid_pair_def decoded_ok_def)
  have "depth_cloud_rows (pixels img) (pixels dep) (width img) (height img) 3 focal_length stride 0 ([], 0) =
      Some (Inr (fst ([], 0::real) @ map (vertex_at (pixels img) (pixels dep) (width img) (height img) focal_length)
                                  (visited_from (uint stride) (width img) (height img) 0),
                      foldl max (snd ([]::vertex_t list, 0))
                        (map (depth_at (pixels dep) (width img)) (visited_from (uint stride) (width img) (height img) 0))))"
    using assms(4,5) v(5-8) by (intro depth_cloud_rows_run) simp_all
  then show ?thesis
    using v(1-4) assms(4) by (simp add: load_both [of dec8 image_path img dec16 depth_path dep, OF assms(1,2)] visited_from_zero)
qed

section \<open>A stride of zero\<close>

text \<open>
  With a stride of zero the inner loop stays at its first pixel: by fixpoint induction, no
  result is ever produced.
\<close>

lemma add_stride_zero: "int32_ok u \<Longrightarrow> add_stride u 0 = u"
  by (simp add: add_stride_def int32_id)

lemma depth_cloud_cols_stride0:
  assumes "depth_cloud_cols pixels1 pixels2 w h ch focal_length stride v u acc = Some y"
  shows "\<not> stuck_at pixels1 pixels2 w h ch stride v u"
proof (rule depth_cloud_cols.raw_induct
    [where P = "\<lambda>pixels1 pixels2 w h ch focal_length stride v u acc y.
                  \<not> stuck_at pixels1 pixels2 w h ch stride v u", OF _ assms])
  fix cols pixels1 pixels2 w h ch focal_length stride v u acc y
  assume IH: "\<And>pixels1 pixels2 w h ch focal_length stride v u acc y.
        cols pixels1 pixels2 w h ch focal_length stride v u acc = Some y \<Longrightarrow>
        \<not> stuck_at pixels1 pixels2 w h ch stride v u"
    and step: "(if u < w
      then case depth_cloud_body pixels1 pixels2 w h ch focal_length v u acc of
           Inl e \<Rightarrow> Some (Inl e)
           | Inr acc' \<Rightarrow> cols pixels1 pixels2 w h ch focal_length stride v (add_stride u stride) acc'
      else Some (Inr acc)) = Some y"
  show "\<not> stuck_at pixels1 pixels2 w h ch stride v u"
  proof
    assume c: "stuck_at pixels1 pixels2 w h ch stride v u"
    then have body: "depth_cloud_body pixels1 pixels2 w h 3 focal_length v 0 acc =
           Inr (fst acc @ [vertex_at pixels1 pixels2 w h focal_length (0, v)],
                max (snd acc) (depth_at pixels2 w (0, v)))"
      unfolding stuck_at_def by (intro depth_cloud_body_ok) simp_all
    have "cols pixels1 pixels2 w h ch focal_length stride v u
            (fst acc @ [vertex_at pixels1 pixels2 w h focal_length (0, v)],
                max (snd acc) (depth_at pixels2 w (0, v))) = Some y"
      using step c body by (simp add: stuck_at_def add_stride_zero int32_ok_def)
    from IH [OF this] c show False by simp
  qed
qed

lemma depth_cloud_cols_diverges:
  assumes "0 \<le> v" "v < h" "0 < w" "w * h * 3 < 2 ^ 31"
    "int (length pixels1) = w * h * 3" "int (length pixels2) = w * h * 3"
  shows "depth_cloud_cols pixels1 pixels2 w h 3 focal_length 0 v 0 acc = None"
proof (cases "depth_cloud_cols pixels1 pixels2 w h 3 focal_length 0 v 0 acc")
  case None
  then show ?thesis .
next
  case (Some y)
  from depth_cloud_cols_stride0 [OF this] assms show ?thesis by (simp add: stuck_at_def)
qed

lemma generate_depth_cloud_stride0:
  assumes "dec8 image_path = Some img" "dec16 depth_path = Some dep" "valid_pair img dep"
  shows "generate_depth_cloud dec8 dec16 image_path depth_path focal_length 0 hp = None"
proof -
  have v: "width img = width dep" "height img = height dep" "channels img = 3" "channels dep = 1"
    "0 < width img" "0 < height img" "width img * height img * 3 < 2 ^ 31"
    "int (length (pixels img)) = width img * height img * 3"
    "int (length (pixels dep)) = width img * height img * 3"
    using assms(3) by (simp_all add: valid_pair_def decoded_ok_def)
  have "depth_cloud_cols (pixels img) (pixels dep) (width img) (height img) 3 focal_length 0 0 0 ([], 0) = None"
    using v(5-9) by (intro depth_cloud_cols_diverges) simp_all
  then have "depth_cloud_rows (pixels img) (pixels dep) (width img) (height img) 3 focal_length 0 0 ([], 0) = None"
    using v(6) by (subst depth_cloud_rows.simps) simp
  then show ?thesis
    using v(1-4) by (simp add: load_both [of dec8 image_path img dec16 depth_path dep, OF assms(1,2)])
qed

section \<open>A stride above \<open>2 ^ 31 - 1\<close>\<close>

text \<open>
  Such a stride turns the loop variable negative at the first increment; the next pass
  through the body reads before the start of the colour buffer.
\<close>

lemma add_stride_wraps:
  assumes "2 ^ 31 \<le> uint stride"
  shows "add_stride 0 stride = uint stride - 2 ^ 32" "add_stride 0 stride < 0"
proof -
  have lt: "uint stride < 2 ^ 32" using uint_lt2p [of stride] by simp
  have "(uint stride + 2 ^ 31) mod 2 ^ 32 = uint stride + 2 ^ 31 - 2 ^ 32"
  proof -
    have "(uint stride + 2 ^ 31 - 2 ^ 32) mod 2 ^ 32 = uint stride + 2 ^ 31 - 2 ^ 32"
      using assms lt by (intro mod_pos_pos_trivial) simp_all
    moreover have "(uint stride + 2 ^ 31 - 2 ^ 32) mod 2 ^ 32 = (uint stride + 2 ^ 31) mod 2 ^ 32"
      by (metis minus_mod_self2)
    ultimately show ?thesis by simp
  qed
  then show a: "add_stride 0 stride = uint stride - 2 ^ 32"
    by (simp add: add_stride_def int32_def)
  show "add_stride 0 stride < 0" using lt unfolding a by simp
qed

lemma depth_cloud_body_negative:
  assumes "u < 0" "0 < w" "0 < h"
  shows "depth_cloud_body pixels1 pixels2 w h 3 focal_length 0 u acc = Inl Undefined_behaviour"
  using assms by (simp add: depth_cloud_body_def read_at_def Let_def)

lemma depth_cloud_cols_wrapped:
  assumes "2 ^ 31 \<le> uint stride" "0 < w" "0 < h" "w * h * 3 < 2 ^ 31"
    and "int (length pixels1) = w * h * 3" "int (length pixels2) = w * h * 3"
  shows "depth_cloud_cols pixels1 pixels2 w h 3 focal_length stride 0 0 acc =
           Some (Inl Undefined_behaviour)"
proof -
  have body: "depth_cloud_body pixels1 pixels2 w h 3 focal_length 0 0 acc =
           Inr (fst acc @ [vertex_at pixels1 pixels2 w h focal_length (0, 0)],
                max (snd acc) (depth_at pixels2 w (0, 0)))"
    using assms(2-6) by (intro depth_cloud_body_ok) simp_all
  note neg = add_stride_wraps(2) [OF assms(1)]
  have second: "depth_cloud_cols pixels1 pixels2 w h 3 focal_length stride 0
                  (add_stride 0 stride) acc' = Some (Inl Undefined_behaviour)" for acc'
    using neg assms(2,3)
    by (subst depth_cloud_cols.simps) (simp add: depth_cloud_body_negative)
  show ?thesis
    using assms(2) by (subst depth_cloud_cols.simps) (simp add: body second)
qed

lemma generate_depth_cloud_wrapped:
  assumes "dec8 image_path = Some img" "dec16 depth_path = Some dep" "valid_pair img dep"
    and "2 ^ 31 \<le> uint stride"
  shows "generate_depth_cloud dec8 dec16 image_path depth_path focal_length stride hp =
           Some (Inl Undefined_behaviour, allocate (allocate hp))"
proof -
  have v: "width img = width dep" "height img = height dep" "channels img = 3" "channels dep = 1"
    "0 < width img" "0 < height img" "width img * height img * 3 < 2 ^ 31"
    "int (length (pixels img)) = width img * height img * 3"
    "int (length (pixels dep)) = width img * height img * 3"
    using assms(3) by (simp_all add: valid_pair_def decoded_ok_def)
  have "depth_cloud_cols (pixels img) (pixels dep) (width img) (height img) 3 focal_length
          stride 0 0 ([], 0) = Some (Inl Undefined_behaviour)"
    using assms(4) v(5-9) by (intro depth_cloud_cols_wrapped) simp_all
  then have "depth_cloud_rows (pixels img) (pixels dep) (width img) (height img) 3 focal_length
          stride 0 ([], 0) = Some (Inl Undefined_behaviour)"
    using v(6) by (subst depth_cloud_rows.simps) simp
  then show ?thesis
    using v(1-4) by (simp add: load_both [of dec8 image_path img dec16 depth_path dep, OF assms(1,2)])
qed

text \<open>A run that returns a point cloud had a stride from 1 to \<open>2 ^ 31 - 1\<close>.\<close>

lemma generate_depth_cloud_returns:
  assumes "dec8 image_path = Some img" "dec16 depth_path = Some dep" "valid_pair img dep"
    and "generate_depth_cloud dec8 dec16 image_path depth_path focal_length stride hp =
           Some (Inr r, hp')"
  shows "0 < uint stride" "uint stride < 2 ^ 31"
proof -
  show "0 < uint stride"
  proof (rule ccontr)
    assume "\<not> 0 < uint stride"
    then have "uint stride = 0" using uint_nonnegative [of stride] by linarith
    then have "stride = 0" by (simp add: uint_0_iff)
    then show False
      using generate_depth_cloud_stride0 [of dec8 image_path img dec16 depth_path dep focal_length hp,
          OF assms(1-3)] assms(4) by simp
  qed
  show "uint stride < 2 ^ 31"
  proof (rule ccontr)
    assume "\<not> uint stride < 2 ^ 31"
    then have "2 ^ 31 \<le> uint stride" by simp
    from generate_depth_cloud_wrapped [of dec8 image_path img dec16 depth_path dep stride
        focal_length hp, OF assms(1-3) this] assms(4)
    show False by simp
  qed
qed

section \<open>The example inputs, evaluated\<close>

lemma valid_pair_example: "valid_pair example_color example_depth"
  by (simp add: valid_pair_def decoded_ok_def example_color_def example_depth_def)

lemma decoded_ok_example: "decoded_ok example_color" "decoded_ok example_depth"
  using valid_pair_example by (simp_all add: valid_pair_def)

lemma visited_example_1: "visited_pixels 1 2 2 = [(0, 0), (1, 0), (0, 1), (1, 1)]"
  by (simp add: visited_pixels_def ceil_div_def upt_conv_Cons)

lemma visited_example_2: "visited_pixels 2 2 2 = [(0, 0)]"
  by (simp add: visited_pixels_def ceil_div_def upt_conv_Cons)

lemma example_decoders:
  "example_dec8 ''color.png'' = Some example_color"
  "example_dec16 ''depth.png'' = Some example_depth"
  "example_dec16 ''small.png'' = Some small_depth"
  "example_dec16 ''missing.png'' = None"
  by (simp_all add: example_dec8_def example_dec16_def)

lemma both_freed_empty: "both_freed empty_heap = \<lparr>next_buffer = 2, live_buffers = {}\<rparr>"
  by (auto simp: both_freed_def stbi_image_free_def allocate_def empty_heap_def numeral_2_eq_2)

lemma example_run:
  "generate_depth_cloud example_dec8 example_dec16 ''color.png'' ''depth.png'' 1 1 empty_heap =
     Some (Inr example_cloud, \<lparr>next_buffer = 2, live_buffers = {}\<rparr>)"
  using generate_depth_cloud_valid [of example_dec8 "''color.png''" example_color example_dec16
      "''depth.png''" example_depth 1 1 empty_heap, OF example_decoders(1,2) valid_pair_example]
  by (simp add: visited_example_1 example_color_def example_depth_def example_cloud_def
      vertex_at_def depth_at_def color_at_def both_freed_empty)

lemma wrapped_example_run:
  "generate_depth_cloud example_dec8 example_dec16 ''color.png'' ''depth.png'' focal_length
     4294967295 empty_heap =
   Some (Inl Undefined_behaviour, \<lparr>next_buffer = 2, live_buffers = {0, 1}\<rparr>)"
  using generate_depth_cloud_wrapped [of example_dec8 "''color.png''" example_color example_dec16
      "''depth.png''" example_depth 4294967295 focal_length empty_heap,
      OF example_decoders(1,2) valid_pair_example]
  by (auto simp: allocate_def empty_heap_def)

lemma heap_ok_empty: "heap_ok empty_heap"
  by (simp add: heap_ok_def empty_heap_def)

lemma decoded_buffer_run:
  "generate_depth_cloud example_dec8 example_dec16 ''color.png'' ''missing.png'' 1400 4
     empty_heap =
     Some (Inl (Unexpected ''Failed to read image or depth map.''),
           \<lparr>next_buffer = 1, live_buffers = {0}\<rparr>)"
  by (simp add: generate_depth_cloud_def stbi_load_def stbi_load_16_def example_dec8_def
      example_dec16_def allocate_def empty_heap_def image_read_error_def)

section \<open>Further facts about visited pixels\<close>

lemma length_gray_to_rgb: "length (gray_to_rgb grays) = 3 * length grays"
  by (simp add: gray_to_rgb_def length_concat comp_def sum_list_triv)

lemma nth_triple:
  "i < length gs \<Longrightarrow> concat (map (\<lambda>g. [g, g, g]) gs) ! (3 * i) = gs ! i"
proof (induction gs arbitrary: i)
  case Nil
  then show ?case by simp
next
  case (Cons g gs)
  show ?case
  proof (cases i)
    case 0
    then show ?thesis by simp
  next
    case (Suc j)
    then have "j < length gs" using Cons.prems by simp
    from Cons.IH [OF this] show ?thesis
      unfolding Suc by (simp add: numeral_3_eq_3)
  qed
qed

lemma visited_in_image:
  assumes "0 < s" "k < length (visited_pixels s w h)" "visited_pixels s w h ! k = (u, v)"
  shows "0 \<le> u" "u < w" "0 \<le> v" "v < h" "s dvd u" "s dvd v"
proof -
  have "(u, v) \<in> set (visited_pixels s w h)" using assms(2,3) by (metis nth_mem)
  then have "0 \<le> u \<and> u < w \<and> 0 \<le> v \<and> v < h \<and> s dvd u \<and> s dvd v"
    unfolding set_visited_pixels [OF assms(1)] by simp
  then show "0 \<le> u" "u < w" "0 \<le> v" "v < h" "s dvd u" "s dvd v" by simp_all
qed

lemma depth_at_nonneg: "0 \<le> depth_at pixels2 w p"
proof (cases p)
  case (Pair u v)
  have "0 \<le> real (unat (pixels2 ! nat ((u + v * w) * 3))) / 255"
    by (rule divide_nonneg_pos) (rule of_nat_0_le_iff, simp)
  then show ?thesis unfolding Pair depth_at_def by (simp only: prod.case)
qed

lemma origin_visited: "0 < s \<Longrightarrow> 0 < w \<Longrightarrow> 0 < h \<Longrightarrow> (0, 0) \<in> set (visited_pixels s w h)"
  by (simp add: set_visited_pixels)

lemma add_stride_visited:
  assumes "0 < uint stride" "uint stride < 2 ^ 31" "0 \<le> x" "x < n" "n * 3 < 2 ^ 31"
    "uint stride dvd x"
  shows "add_stride x stride = x + uint stride"
proof -
  have "x + uint stride < 2147483648"
  proof (cases "x = 0")
    case True
    then show ?thesis using assms(2) by simp
  next
    case False
    then have "0 < x" using assms(3) by simp
    with assms(6) have "uint stride \<le> x" by (rule zdvd_imp_le)
    then show ?thesis using assms(4,5) by simp
  qed
  then have "x + uint stride < 2 ^ 31" by simp
  with assms(3) show ?thesis by (rule add_stride_plain)
qed

section \<open>Claims about the reconstruction\<close>

text \<open>
  C1. For every pixel \<open>(u, v)\<close> that a run of \<open>generate_depth_cloud\<close> on a valid
  equal-resolution pair visits, with \<open>d\<close> the depth value the code uses at that pixel and
  \<open>f\<close> the focal length, the vertex appended for the pixel has the position
  \<open>x = d * (w - u - w / 2) / f\<close>, \<open>y = d * (h - v - h / 2) / f\<close>, \<open>z = d\<close>, with the mirrored
  axes \<open>w - u\<close> and \<open>h - v\<close>; \<open>w / 2\<close> is the exact half, also for an odd width. This holds
  of every run that returns a point cloud, whose \<open>k\<close>-th vertex belongs to the \<open>k\<close>-th pixel
  of the strided grid, and a run with a stride from 1 to \<open>2 ^ 31 - 1\<close> does return one.
\<close>

theorem position_of_visited_pixel:
  assumes "dec8 image_path = Some img" "dec16 depth_path = Some dep" "valid_pair img dep"
    and "focal_length \<noteq> 0"
  shows "(1 \<le> uint stride \<and> uint stride < 2 ^ 31 \<longrightarrow>
            (\<exists>r. generate_depth_cloud dec8 dec16 image_path depth_path focal_length stride hp =
                    Some (Inr r, both_freed hp))) \<and>
         (\<forall>r hp' k u v.
            generate_depth_cloud dec8 dec16 image_path depth_path focal_length stride hp =
              Some (Inr r, hp') \<and>
            k < length (visited_pixels (uint stride) (width img) (height img)) \<and>
            visited_pixels (uint stride) (width img) (height img) ! k = (u, v) \<longrightarrow>
            length (vertices r) = length (visited_pixels (uint stride) (width img) (height img)) \<and>
            (let d = real (unat (pixels dep ! nat ((u + v * width img) * 3))) / 255
             in position (vertices r ! k) =
                  (d * (real_of_int (width img) - real_of_int u - real_of_int (width img) / 2)
                     / focal_length,
                   d * (real_of_int (height img) - real_of_int v - real_of_int (height img) / 2)
                     / focal_length,
                   d)))"
proof (intro conjI impI allI)
  assume "1 \<le> uint stride \<and> uint stride < 2 ^ 31"
  then have "0 < uint stride" "uint stride < 2 ^ 31" by simp_all
  from generate_depth_cloud_valid [of dec8 image_path img dec16 depth_path dep stride
      focal_length hp, OF assms(1-3) this]
  show "\<exists>r. generate_depth_cloud dec8 dec16 image_path depth_path focal_length stride hp =
              Some (Inr r, both_freed hp)"
    by blast
next
  fix r hp' k u v
  assume a: "generate_depth_cloud dec8 dec16 image_path depth_path focal_length stride hp =
              Some (Inr r, hp') \<and>
            k < length (visited_pixels (uint stride) (width img) (height img)) \<and>
            visited_pixels (uint stride) (width img) (height img) ! k = (u, v)"
  then have run: "generate_depth_cloud dec8 dec16 image_path depth_path focal_length stride hp =
              Some (Inr r, hp')" by simp
  note range = generate_depth_cloud_returns [of dec8 image_path img dec16 depth_path dep
      focal_length stride hp r hp', OF assms(1-3) run]
  from generate_depth_cloud_valid [of dec8 image_path img dec16 depth_path dep stride
      focal_length hp, OF assms(1-3) range] run
  have r: "vertices r = map (vertex_at (pixels img) (pixels dep) (width img) (height img) focal_length)
                              (visited_pixels (uint stride) (width img) (height img))"
    by simp
  show "length (vertices r) = length (visited_pixels (uint stride) (width img) (height img))"
    by (simp add: r)
  show "let d = real (unat (pixels dep ! nat ((u + v * width img) * 3))) / 255
        in position (vertices r ! k) =
             (d * (real_of_int (width img) - real_of_int u - real_of_int (width img) / 2)
                / focal_length,
              d * (real_of_int (height img) - real_of_int v - real_of_int (height img) / 2)
                / focal_length,
              d)"
    using a by (simp add: r vertex_at_def depth_at_def Let_def)
qed

theorem position_of_visited_pixel_witness:
  "generate_depth_cloud example_dec8 example_dec16 ''color.png'' ''depth.png'' 1 1 empty_heap =
     Some (Inr example_cloud, \<lparr>next_buffer = 2, live_buffers = {}\<rparr>) \<and>
   visited_pixels 1 2 2 ! 1 = (1, 0) \<and>
   position (vertices example_cloud ! 1) = (2 * (2 - 1 - 2 / 2) / 1, 2 * (2 - 0 - 2 / 2) / 1, 2)"
proof -
  have f: "(1::real) \<noteq> 0" by simp
  have k: "1 < length (visited_pixels (uint (1 :: 32 word)) (width example_color) (height example_color))"
    and p: "visited_pixels (uint (1 :: 32 word)) (width example_color) (height example_color) ! 1 = (1, 0)"
    by (simp_all add: example_color_def visited_example_1)
  from position_of_visited_pixel [of example_dec8 "''color.png''" example_color example_dec16
      "''depth.png''" example_depth 1 1 empty_heap, OF example_decoders(1,2) valid_pair_example f]
  have "generate_depth_cloud example_dec8 example_dec16 ''color.png'' ''depth.png'' 1 1 empty_heap =
              Some (Inr example_cloud, \<lparr>next_buffer = 2, live_buffers = {}\<rparr>) \<and>
            1 < length (visited_pixels (uint (1 :: 32 word)) (width example_color) (height example_color)) \<and>
            visited_pixels (uint (1 :: 32 word)) (width example_color) (height example_color) ! 1 = (1, 0) \<longrightarrow>
        (let d = real (unat (pixels example_depth ! nat ((1 + 0 * width example_color) * 3))) / 255
             in position (vertices example_cloud ! 1) =
                  (d * (real_of_int (width example_color) - real_of_int 1 - real_of_int (width example_color) / 2)
                     / 1,
                   d * (real_of_int (height example_color) - real_of_int 0 - real_of_int (height example_color) / 2)
                     / 1,
                   d))"
    by blast
  with example_run k p show ?thesis
    by (simp add: example_color_def example_depth_def visited_example_1)
qed

text \<open>
  C2. The depth file has one channel; \<open>grays\<close> is its single-channel raster, of
  \<open>width * height\<close> samples, which the decoder hands over with each sample copied into three
  components. For every pixel \<open>(u, v)\<close> that a run visits, the depth value the code uses,
  which is the third coordinate of the pixel's vertex, is the sample of that raster at the
  single-channel index \<open>u + v * width\<close> (row \<open>v\<close>, column \<open>u\<close>), divided by 255. The code's
  index \<open>(u + v * w1) * ch1\<close> goes into the three-component buffer, where it is the first
  component of the same pixel.
\<close>

theorem depth_of_visited_pixel:
  assumes "dec8 image_path = Some img" "dec16 depth_path = Some dep" "valid_pair img dep"
    and "pixels dep = gray_to_rgb grays"
  shows "int (length grays) = width img * height img \<and>
         (1 \<le> uint stride \<and> uint stride < 2 ^ 31 \<longrightarrow>
            (\<exists>r. generate_depth_cloud dec8 dec16 image_path depth_path focal_length stride hp =
                    Some (Inr r, both_freed hp))) \<and>
         (\<forall>r hp' k u v.
            generate_depth_cloud dec8 dec16 image_path depth_path focal_length stride hp =
              Some (Inr r, hp') \<and>
            k < length (visited_pixels (uint stride) (width img) (height img)) \<and>
            visited_pixels (uint stride) (width img) (height img) ! k = (u, v) \<longrightarrow>
            0 \<le> u + v * width img \<and> u + v * width img < int (length grays) \<and>
            snd (snd (position (vertices r ! k))) =
              real (unat (grays ! nat (u + v * width img))) / 255)"
proof (intro conjI impI allI)
  have len: "int (length (pixels dep)) = width img * height img * 3"
    using assms(3) by (simp add: valid_pair_def decoded_ok_def)
  have "length (pixels dep) = 3 * length grays"
    unfolding assms(4) by (rule length_gray_to_rgb)
  then show lg: "int (length grays) = width img * height img" using len by simp
  {
    assume "1 \<le> uint stride \<and> uint stride < 2 ^ 31"
    then have "0 < uint stride" "uint stride < 2 ^ 31" by simp_all
    from generate_depth_cloud_valid [of dec8 image_path img dec16 depth_path dep stride
        focal_length hp, OF assms(1-3) this]
    show "\<exists>r. generate_depth_cloud dec8 dec16 image_path depth_path focal_length stride hp =
                Some (Inr r, both_freed hp)"
      by blast
  }
  fix r hp' k u v
  assume a: "generate_depth_cloud dec8 dec16 image_path depth_path focal_length stride hp =
              Some (Inr r, hp') \<and>
            k < length (visited_pixels (uint stride) (width img) (height img)) \<and>
            visited_pixels (uint stride) (width img) (height img) ! k = (u, v)"
  then have run: "generate_depth_cloud dec8 dec16 image_path depth_path focal_length stride hp =
              Some (Inr r, hp')"
    and k: "k < length (visited_pixels (uint stride) (width img) (height img))"
    and p: "visited_pixels (uint stride) (width img) (height img) ! k = (u, v)"
    by simp_all
  note range = generate_depth_cloud_returns [of dec8 image_path img dec16 depth_path dep
      focal_length stride hp r hp', OF assms(1-3) run]
  from generate_depth_cloud_valid [of dec8 image_path img dec16 depth_path dep stride
      focal_length hp, OF assms(1-3) range] run
  have r: "vertices r =
      map (vertex_at (pixels img) (pixels dep) (width img) (height img) focal_length)
        (visited_pixels (uint stride) (width img) (height img))"
    by simp
  have z: "snd (snd (position (vertices r ! k))) =
           real (unat (pixels dep ! nat ((u + v * width img) * 3))) / 255"
    using k p by (simp add: r vertex_at_def depth_at_def)
  note b = visited_in_image [OF range(1) k p]
  note ib = index_bounds [OF b(1-4)]
  show i0: "0 \<le> u + v * width img" using b(1) ib(1) by simp
  show i1: "u + v * width img < int (length grays)" using ib(2) lg by simp
  then have "nat (u + v * width img) < length grays" using i0 by linarith
  from nth_triple [OF this]
  have "pixels dep ! (3 * nat (u + v * width img)) = grays ! nat (u + v * width img)"
    unfolding assms(4) gray_to_rgb_def .
  moreover have "nat ((u + v * width img) * 3) = 3 * nat (u + v * width img)"
    using i0 by (simp add: nat_mult_distrib mult.commute)
  ultimately show "snd (snd (position (vertices r ! k))) =
      real (unat (grays ! nat (u + v * width img))) / 255"
    using z by simp
qed

text \<open>
  In the example, pixel \<open>(1, 0)\<close> gets the depth 2 of the gray sample at index 1; the gray
  sample at the index 3 of a three-sample stride would give 4.
\<close>

theorem depth_of_visited_pixel_witness:
  "generate_depth_cloud example_dec8 example_dec16 ''color.png'' ''depth.png'' 1 1 empty_heap =
     Some (Inr example_cloud, \<lparr>next_buffer = 2, live_buffers = {}\<rparr>) \<and>
   pixels example_depth = gray_to_rgb [255, 510, 765, 1020] \<and>
   visited_pixels 1 2 2 ! 1 = (1, 0) \<and>
   snd (snd (position (vertices example_cloud ! 1))) =
     real (unat ([255, 510, 765, 1020 :: 16 word] ! nat (1 + 0 * 2))) / 255 \<and>
   snd (snd (position (vertices example_cloud ! 1))) = 2 \<and>
   real (unat ([255, 510, 765, 1020 :: 16 word] ! nat ((1 + 0 * 2) * 3))) / 255 = 4"
proof -
  have k: "1 < length (visited_pixels (uint (1 :: 32 word)) (width example_color)
      (height example_color))"
    and p: "visited_pixels (uint (1 :: 32 word)) (width example_color)
      (height example_color) ! 1 = (1, 0)"
    by (simp_all add: example_color_def visited_example_1)
  have g: "pixels example_depth = gray_to_rgb [255, 510, 765, 1020]"
    by (simp add: example_depth_def gray_to_rgb_def)
  from depth_of_visited_pixel [of example_dec8 "''color.png''" example_color example_dec16
      "''depth.png''" example_depth "[255, 510, 765, 1020]" 1 1 empty_heap,
      OF example_decoders(1,2) valid_pair_example g]
    example_run k p
  have "snd (snd (position (vertices example_cloud ! 1))) =
     real (unat ([255, 510, 765, 1020 :: 16 word] ! nat (1 + 0 * width example_color))) / 255"
    by blast
  with example_run g show ?thesis by (simp add: example_color_def visited_example_1)
qed

text \<open>
  C3, for a stride from 1 to \<open>2 ^ 31 - 1\<close>. On a valid equal-resolution pair of dimensions
  \<open>(w, h)\<close> the function returns exactly \<open>ceil (h / stride) * ceil (w / stride)\<close> vertices, in
  row-major order over the strided grid: the vertex at position \<open>i * ceil (w / stride) + j\<close>
  is the one of pixel \<open>(j * stride, i * stride)\<close>, so no row and no column is dropped or
  repeated. Both buffers are freed.
\<close>

theorem point_count_and_order:
  assumes "dec8 image_path = Some img" "dec16 depth_path = Some dep" "valid_pair img dep"
    and "1 \<le> uint stride" "uint stride < 2 ^ 31"
  shows "\<exists>r. generate_depth_cloud dec8 dec16 image_path depth_path focal_length stride hp =
               Some (Inr r, both_freed hp) \<and>
             length (vertices r) =
               nat \<lceil>real_of_int (height img) / real_of_int (uint stride)\<rceil> *
               nat \<lceil>real_of_int (width img) / real_of_int (uint stride)\<rceil> \<and>
             (\<forall>i j. i < ceil_div (height img) (uint stride) \<and>
                    j < ceil_div (width img) (uint stride) \<longrightarrow>
                vertices r ! (i * ceil_div (width img) (uint stride) + j) =
                  vertex_at (pixels img) (pixels dep) (width img) (height img) focal_length
                    (int j * uint stride, int i * uint stride))"
proof -
  let ?s = "uint stride"
  let ?vs = "visited_pixels ?s (width img) (height img)"
  let ?f = "vertex_at (pixels img) (pixels dep) (width img) (height img) focal_length"
  let ?r = "\<lparr>vertices = map ?f ?vs,
             max_depth = foldl max 0 (map (depth_at (pixels dep) (width img)) ?vs)\<rparr>"
  have pos: "0 < ?s" using assms(4) by simp
  have run: "generate_depth_cloud dec8 dec16 image_path depth_path focal_length stride hp =
               Some (Inr ?r, both_freed hp)"
    using assms(1-3) pos assms(5) by (rule generate_depth_cloud_valid)
  have len: "length (vertices ?r) =
      nat \<lceil>real_of_int (height img) / real_of_int ?s\<rceil> *
      nat \<lceil>real_of_int (width img) / real_of_int ?s\<rceil>"
    by (simp add: length_visited_pixels ceil_div_def)
  have nth: "vertices ?r ! (i * ceil_div (width img) ?s + j) = ?f (int j * ?s, int i * ?s)"
    if "i < ceil_div (height img) ?s" "j < ceil_div (width img) ?s" for i j
  proof -
    have "Suc i \<le> ceil_div (height img) ?s" using that(1) by simp
    then have "Suc i * ceil_div (width img) ?s \<le> ceil_div (height img) ?s * ceil_div (width img) ?s"
      by (rule mult_le_mono1)
    then have "i * ceil_div (width img) ?s + j < length ?vs"
      using that(2) by (simp add: length_visited_pixels)
    then show ?thesis by (simp add: nth_visited_pixels [OF that])
  qed
  from run len nth show ?thesis by blast
qed

theorem point_count_and_order_witness:
  "\<exists>r. generate_depth_cloud example_dec8 example_dec16 ''color.png'' ''depth.png'' 1 2 empty_heap =
          Some (Inr r, both_freed empty_heap) \<and>
        length (vertices r) = 1 \<and>
        vertices r ! 0 = \<lparr>position = (1, 1, 1), color = (1, 0, 0)\<rparr>"
proof -
  have s: "1 \<le> uint (2 :: 32 word)" "uint (2 :: 32 word) < 2 ^ 31" by simp_all
  have c: "ceil_div 2 2 = 1" by (simp add: ceil_div_def)
  from point_count_and_order [of example_dec8 "''color.png''" example_color example_dec16
      "''depth.png''" example_depth 2 1 empty_heap, OF example_decoders(1,2) valid_pair_example s]
  obtain r where r: "generate_depth_cloud example_dec8 example_dec16 ''color.png'' ''depth.png''
        1 2 empty_heap = Some (Inr r, both_freed empty_heap)"
      "length (vertices r) =
         nat \<lceil>real_of_int (height example_color) / real_of_int (uint (2 :: 32 word))\<rceil> *
         nat \<lceil>real_of_int (width example_color) / real_of_int (uint (2 :: 32 word))\<rceil>"
      "\<forall>i j. i < ceil_div (height example_color) (uint (2 :: 32 word)) \<and>
               j < ceil_div (width example_color) (uint (2 :: 32 word)) \<longrightarrow>
          vertices r ! (i * ceil_div (width example_color) (uint (2 :: 32 word)) + j) =
            vertex_at (pixels example_color) (pixels example_depth) (width example_color)
              (height example_color) 1 (int j * uint (2 :: 32 word), int i * uint (2 :: 32 word))"
    by blast
  have "length (vertices r) = 1" using r(2) by (simp add: example_color_def)
  moreover have "vertices r ! 0 = \<lparr>position = (1, 1, 1), color = (1, 0, 0)\<rparr>"
    using r(3) [rule_format, of 0 0]
    by (simp add: example_color_def example_depth_def c vertex_at_def depth_at_def color_at_def)
  ultimately show ?thesis using r(1) by blast
qed

text \<open>
  C3 as stated, for every stride of at least 1, fails: \<open>stride\<close> is an \<open>unsigned int\<close>, and
  at 4294967295 the column variable becomes \<open>-1\<close> after the first pixel; the next pass reads
  \<open>pixels1[-3]\<close>, and no point cloud is returned.
\<close>

theorem point_count_counterexample:
  "valid_pair example_color example_depth \<and> 1 \<le> uint (4294967295 :: 32 word) \<and>
   generate_depth_cloud example_dec8 example_dec16 ''color.png'' ''depth.png'' 1
     4294967295 empty_heap =
   Some (Inl Undefined_behaviour, \<lparr>next_buffer = 2, live_buffers = {0, 1}\<rparr>)"
  by (simp add: valid_pair_example wrapped_example_run)

text \<open>
  C4, for a stride from 1 to \<open>2 ^ 31 - 1\<close>. The \<open>max_depth\<close> returned is the maximum of
  \<open>gray / 255\<close> over exactly the visited pixels, those whose two coordinates are multiples
  of the stride, and not over all pixels of the image.
\<close>

theorem max_depth_over_visited:
  assumes "dec8 image_path = Some img" "dec16 depth_path = Some dep" "valid_pair img dep"
    and "1 \<le> uint stride" "uint stride < 2 ^ 31"
  shows "\<exists>r. generate_depth_cloud dec8 dec16 image_path depth_path focal_length stride hp =
               Some (Inr r, both_freed hp) \<and>
             max_depth r =
               Max ((\<lambda>(u, v). real (unat (pixels dep ! nat ((u + v * width img) * 3))) / 255) `
                    {(u, v). 0 \<le> u \<and> u < width img \<and> 0 \<le> v \<and> v < height img \<and>
                             uint stride dvd u \<and> uint stride dvd v})"
proof -
  let ?s = "uint stride"
  let ?vs = "visited_pixels ?s (width img) (height img)"
  let ?d = "depth_at (pixels dep) (width img)"
  let ?r = "\<lparr>vertices = map (vertex_at (pixels img) (pixels dep) (width img) (height img)
                               focal_length) ?vs,
             max_depth = foldl max 0 (map ?d ?vs)\<rparr>"
  have pos: "0 < ?s" using assms(4) by simp
  have dims: "0 < width img" "0 < height img"
    using assms(3) by (simp_all add: valid_pair_def decoded_ok_def)
  have run: "generate_depth_cloud dec8 dec16 image_path depth_path focal_length stride hp =
               Some (Inr ?r, both_freed hp)"
    using assms(1-3) pos assms(5) by (rule generate_depth_cloud_valid)
  have ne: "?d ` set ?vs \<noteq> {}" using origin_visited [OF pos dims] by auto
  have "foldl max 0 (map ?d ?vs) = Max (insert 0 (?d ` set ?vs))"
    by (simp add: foldl_max_Max)
  also have "\<dots> = max 0 (Max (?d ` set ?vs))"
    using ne by (intro Max_insert) simp_all
  also have "\<dots> = Max (?d ` set ?vs)"
  proof -
    have "Max (?d ` set ?vs) \<in> ?d ` set ?vs" using ne by (intro Max_in) simp_all
    then have "0 \<le> Max (?d ` set ?vs)" using depth_at_nonneg by (metis (no_types, lifting) imageE)
    then show ?thesis by simp
  qed
  finally have m: "max_depth ?r = Max (?d ` set ?vs)" by simp
  have d: "?d = (\<lambda>(u, v). real (unat (pixels dep ! nat ((u + v * width img) * 3))) / 255)"
    by (rule ext) (simp add: depth_at_def split: prod.splits)
  from run m show ?thesis
    unfolding set_visited_pixels [OF pos] d by blast
qed

text \<open>
  In the example the stride 2 visits the pixel \<open>(0, 0)\<close> only: the result is its depth 1,
  not the largest depth 4 of the image.
\<close>

theorem max_depth_over_visited_witness:
  "\<exists>r. generate_depth_cloud example_dec8 example_dec16 ''color.png'' ''depth.png'' 1 2 empty_heap =
          Some (Inr r, both_freed empty_heap) \<and> max_depth r = 1"
proof -
  have s: "1 \<le> uint (2 :: 32 word)" "uint (2 :: 32 word) < 2 ^ 31" by simp_all
  have "{(u, v). 0 \<le> u \<and> u < width example_color \<and> 0 \<le> v \<and> v < height example_color \<and>
                 uint (2 :: 32 word) dvd u \<and> uint (2 :: 32 word) dvd v} =
        set (visited_pixels 2 2 2)"
    by (simp add: set_visited_pixels example_color_def)
  then have v: "{(u, v). 0 \<le> u \<and> u < width example_color \<and> 0 \<le> v \<and> v < height example_color \<and>
                 uint (2 :: 32 word) dvd u \<and> uint (2 :: 32 word) dvd v} = {(0, 0)}"
    by (simp add: visited_example_2)
  from max_depth_over_visited [of example_dec8 "''color.png''" example_color example_dec16
      "''depth.png''" example_depth 2 1 empty_heap, OF example_decoders(1,2) valid_pair_example s]
  show ?thesis unfolding v by (simp add: example_depth_def example_color_def)
qed

text \<open>
  C4 as stated, for every stride of at least 1, fails at the stride 4294967295: the run
  reads outside the colour buffer and returns no \<open>max_depth\<close>.
\<close>

theorem max_depth_counterexample:
  "valid_pair example_color example_depth \<and> 1 \<le> uint (4294967295 :: 32 word) \<and>
   map_option fst (generate_depth_cloud example_dec8 example_dec16 ''color.png'' ''depth.png''
     1400 4294967295 empty_heap) = Some (Inl Undefined_behaviour)"
  by (simp add: valid_pair_example wrapped_example_run)

text \<open>
  C10, for a stride from 1 to \<open>2 ^ 31 - 1\<close>. On a decoded pair with width and height of at
  least 1 the function returns, with a point cloud or, when the pair fails the format check,
  with the format error, and with both buffers freed; at every value a loop variable takes (a multiple of the stride
  below the width or the height) the increment makes it strictly larger, by exactly the
  stride. With the stride 0 and a pair that passes the format check the function never
  returns, so a stride of at least 1 is necessary.
\<close>

theorem loops_terminate:
  assumes "dec8 image_path = Some img" "dec16 depth_path = Some dep"
    and "decoded_ok img" "decoded_ok dep"
  shows "(1 \<le> uint stride \<and> uint stride < 2 ^ 31 \<longrightarrow>
            ((\<exists>r. generate_depth_cloud dec8 dec16 image_path depth_path focal_length stride hp =
                    Some (Inr r, both_freed hp)) \<or>
             generate_depth_cloud dec8 dec16 image_path depth_path focal_length stride hp =
               Some (Inl (Unexpected format_error), both_freed hp)) \<and>
            (\<forall>x. 0 \<le> x \<and> (x < width img \<or> x < height img) \<and> uint stride dvd x \<longrightarrow>
                  x < add_stride x stride \<and> add_stride x stride = x + uint stride)) \<and>
         (valid_pair img dep \<longrightarrow>
            generate_depth_cloud dec8 dec16 image_path depth_path focal_length 0 hp = None)"
proof -
  have dims: "0 < width img" "0 < height img" "width img * height img * 3 < 2 ^ 31"
    using assms(3) by (simp_all add: decoded_ok_def)
  have wh: "width img \<le> width img * height img" "height img \<le> width img * height img"
    using index_bounds(3,4) [of 0 "width img" 0 "height img"] dims by simp_all
  have w3: "width img * 3 < 2 ^ 31" and h3: "height img * 3 < 2 ^ 31"
    using wh dims(3) by simp_all
  have zero: "generate_depth_cloud dec8 dec16 image_path depth_path focal_length 0 hp = None"
    if "valid_pair img dep"
    using assms(1,2) that by (rule generate_depth_cloud_stride0)
  have good: "((\<exists>r. generate_depth_cloud dec8 dec16 image_path depth_path focal_length stride hp =
                    Some (Inr r, both_freed hp)) \<or>
             generate_depth_cloud dec8 dec16 image_path depth_path focal_length stride hp =
               Some (Inl (Unexpected format_error), both_freed hp)) \<and>
            (\<forall>x. 0 \<le> x \<and> (x < width img \<or> x < height img) \<and> uint stride dvd x \<longrightarrow>
                  x < add_stride x stride \<and> add_stride x stride = x + uint stride)"
    if s: "1 \<le> uint stride" "uint stride < 2 ^ 31"
  proof -
    have pos: "0 < uint stride" using s(1) by simp
    have "(\<exists>r. generate_depth_cloud dec8 dec16 image_path depth_path focal_length stride hp =
                    Some (Inr r, both_freed hp)) \<or>
             generate_depth_cloud dec8 dec16 image_path depth_path focal_length stride hp =
               Some (Inl (Unexpected format_error), both_freed hp)"
    proof (cases "valid_pair img dep")
      case True
      from generate_depth_cloud_valid [of dec8 image_path img dec16 depth_path dep stride
          focal_length hp, OF assms(1,2) True pos s(2)]
      show ?thesis by blast
    next
      case False
      then have "width img \<noteq> width dep \<or> height img \<noteq> height dep \<or>
          channels img \<noteq> 3 \<or> channels dep \<noteq> 1"
        using assms(3,4) by (auto simp: valid_pair_def)
      then show ?thesis
        by (simp add: load_both [of dec8 image_path img dec16 depth_path dep, OF assms(1,2)])
    qed
    moreover have "x < add_stride x stride \<and> add_stride x stride = x + uint stride"
      if x: "0 \<le> x" "x < width img \<or> x < height img" "uint stride dvd x" for x
    proof -
      have "add_stride x stride = x + uint stride"
        using x(2) add_stride_visited [OF pos s(2) x(1) _ w3 x(3)]
          add_stride_visited [OF pos s(2) x(1) _ h3 x(3)] by blast
      then show ?thesis using pos by simp
    qed
    ultimately show ?thesis by blast
  qed
  from good zero show ?thesis by blast
qed

theorem loops_terminate_witness:
  "generate_depth_cloud example_dec8 example_dec16 ''color.png'' ''depth.png'' 1 1 empty_heap =
     Some (Inr example_cloud, \<lparr>next_buffer = 2, live_buffers = {}\<rparr>) \<and>
   add_stride 1 1 = 2 \<and>
   generate_depth_cloud example_dec8 example_dec16 ''color.png'' ''depth.png'' 1 0 empty_heap = None"
proof -
  have s: "1 \<le> uint (1 :: 32 word) \<and> uint (1 :: 32 word) < 2 ^ 31" by simp
  have x: "(0::int) \<le> 1 \<and> (1 < width example_color \<or> 1 < height example_color) \<and>
      uint (1 :: 32 word) dvd 1"
    by (simp add: example_color_def)
  from loops_terminate [of example_dec8 "''color.png''" example_color example_dec16
      "''depth.png''" example_depth 1 1 empty_heap, OF example_decoders(1,2) decoded_ok_example]
    s x valid_pair_example example_run
  show ?thesis by auto
qed

text \<open>
  C10 as stated, for every stride of at least 1, fails at the stride 4294967295: the
  increment takes the column variable from 0 to \<open>-1\<close>, and the run ends in an out-of-bounds
  read instead of leaving the loop.
\<close>

theorem loops_terminate_counterexample:
  "valid_pair example_color example_depth \<and> 1 \<le> uint (4294967295 :: 32 word) \<and>
   add_stride 0 4294967295 = - 1 \<and>
   depth_cloud_cols (pixels example_color) (pixels example_depth) 2 2 3 1 4294967295 0 (- 1)
     ([\<lparr>position = (1, 1, 1), color = (1, 0, 0)\<rparr>], 1) = Some (Inl Undefined_behaviour) \<and>
   generate_depth_cloud example_dec8 example_dec16 ''color.png'' ''depth.png'' 1 4294967295
     empty_heap =
   Some (Inl Undefined_behaviour, \<lparr>next_buffer = 2, live_buffers = {0, 1}\<rparr>)"
proof -
  have "add_stride 0 4294967295 = - 1"
    using add_stride_wraps(1) [of 4294967295] by simp
  moreover have "depth_cloud_cols (pixels example_color) (pixels example_depth) 2 2 3 1
      4294967295 0 (- 1) ([\<lparr>position = (1, 1, 1), color = (1, 0, 0)\<rparr>], 1) =
      Some (Inl Undefined_behaviour)"
    by (subst depth_cloud_cols.simps) (simp add: depth_cloud_body_negative)
  ultimately show ?thesis by (simp add: valid_pair_example wrapped_example_run)
qed

section \<open>Claims about errors and resources\<close>

lemma fresh_shader_name: "gl_ok gl \<Longrightarrow> shader_objects gl (next_name gl) = None"
  unfolding gl_ok_def by (metis domIff less_irrefl)

lemma create_shader_result:
  "create_shader cc ty src gl =
     (case cc ty src of
        Some info_log \<Rightarrow>
          (Inl (''Shader compilation error: '' @ info_log),
           gl\<lparr>next_name := Suc (next_name gl),
              shader_objects := (shader_objects gl)(next_name gl := None)\<rparr>)
      | None \<Rightarrow>
          (Inr (next_name gl),
           gl\<lparr>next_name := Suc (next_name gl),
              shader_objects := (shader_objects gl)(next_name gl \<mapsto> (ty, src))\<rparr>))"
  by (simp add: create_shader_def glCreateShader_def glShaderSource_def glDeleteShader_def
      Let_def split: option.splits)

lemma create_program_linked_shaders:
  "create_program_linked ld vs fs gl = (res, gl') \<Longrightarrow> shader_objects gl' = shader_objects gl"
  by (auto simp: create_program_linked_def glCreateProgram_def glDeleteProgram_def
      split: option.splits)

text \<open>
  C5. On every exit of \<open>create_program(vs_path, fs_path)\<close>, whatever the files, the compiler
  and the linker do (an unreadable file of either stage, a compile failure of either stage,
  a link failure, or success), the shader objects the application holds are those it held
  before the call: no shader created during the call survives it.
\<close>

theorem no_shader_handle_survives:
  assumes "gl_ok gl"
  shows "shader_objects (snd (create_program fsys cc ld vs_path fs_path gl)) = shader_objects gl"
proof -
  let ?n = "next_name gl"
  have fresh: "shader_objects gl ?n = None" using assms by (rule fresh_shader_name)
  have fresh2: "shader_objects gl (Suc ?n) = None"
    using assms unfolding gl_ok_def by (metis domIff Suc_n_not_le_n less_imp_le_nat)
  have one: "(shader_objects gl)(?n := None) = shader_objects gl"
    "(shader_objects gl)(Suc ?n := None) = shader_objects gl"
    using fresh fresh2 by (simp_all add: fun_upd_idem)
  have two: "((shader_objects gl)(?n \<mapsto> a, Suc ?n := None))(?n := None) = shader_objects gl" for a
    using fresh fresh2 by (auto simp: fun_eq_iff)
  have three: "(((shader_objects gl)(?n \<mapsto> a, Suc ?n \<mapsto> b))(?n := None))(Suc ?n := None) =
      shader_objects gl" for a b
    using fresh fresh2 by (auto simp: fun_eq_iff)
  show ?thesis
    by (auto simp: create_program_def create_shader_result read_file_contents_def
        glDeleteShader_def Let_def one two three
        dest!: create_program_linked_shaders split: option.splits sum.splits prod.splits)
qed

text \<open>
  In the example the vertex stage compiles and the fragment stage does not: the error is
  returned, and the state differs from the one before the call in the two names used up
  only. The vertex shader was released.
\<close>

theorem no_shader_handle_survives_witness:
  "create_program example_files example_compiler example_linker ''shader.vs'' ''shader.fs''
     example_gl =
     (Inl ''Shader compilation error: syntax error'',
      example_gl\<lparr>next_name := 4\<rparr>) \<and>
   shader_objects (snd (create_program example_files example_compiler example_linker
     ''shader.vs'' ''shader.fs'' example_gl)) = [1 \<mapsto> (GL_VERTEX_SHADER, ''old'')]"
proof -
  have ok: "gl_ok example_gl" by (simp add: gl_ok_def example_gl_def)
  have run: "create_program example_files example_compiler example_linker ''shader.vs''
      ''shader.fs'' example_gl =
     (Inl ''Shader compilation error: syntax error'', example_gl\<lparr>next_name := 4\<rparr>)"
    by (auto simp: create_program_def create_shader_result read_file_contents_def
        glDeleteShader_def Let_def example_files_def example_compiler_def example_gl_def
        fun_eq_iff numeral_eq_Suc)
  from no_shader_handle_survives [OF ok, of example_files example_compiler example_linker
      "''shader.vs''" "''shader.fs''"] run
  show ?thesis by (simp add: example_gl_def)
qed

text \<open>
  C6. When both files decode but the widths differ, or the heights differ, or the colour
  file does not have exactly 3 channels, or the depth file does not have exactly 1, the
  function returns the format error and no point cloud, and both buffers have been freed:
  the live buffers are those from before the call.
\<close>

theorem format_mismatch_rejected:
  assumes "dec8 image_path = Some img" "dec16 depth_path = Some dep"
    and "width img \<noteq> width dep \<or> height img \<noteq> height dep \<or>
         channels img \<noteq> 3 \<or> channels dep \<noteq> 1"
    and "heap_ok hp"
  shows "generate_depth_cloud dec8 dec16 image_path depth_path focal_length stride hp =
           Some (Inl (Unexpected format_error), both_freed hp) \<and>
         live_buffers (both_freed hp) = live_buffers hp"
  using assms(3,4)
  by (simp add: load_both [of dec8 image_path img dec16 depth_path dep, OF assms(1,2)]
      live_both_freed)

theorem format_mismatch_rejected_witness:
  "generate_depth_cloud example_dec8 example_dec16 ''color.png'' ''small.png'' 1400 4 empty_heap =
     Some (Inl (Unexpected ''Image and depth map not same resolution or invalid channel count.''),
           both_freed empty_heap) \<and>
   live_buffers (both_freed empty_heap) = {}"
proof -
  have m: "width example_color \<noteq> width small_depth \<or> height example_color \<noteq> height small_depth \<or>
         channels example_color \<noteq> 3 \<or> channels small_depth \<noteq> 1"
    by (simp add: example_color_def small_depth_def)
  from format_mismatch_rejected [of example_dec8 "''color.png''" example_color example_dec16
      "''small.png''" small_depth empty_heap 1400 4, OF example_decoders(1,3) m heap_ok_empty]
  show ?thesis by (simp add: format_error_def empty_heap_def)
qed

text \<open>
  C7 does not hold of the code. When one file decodes and the other does not, the early
  return frees nothing: the decoded buffer (number 0 here) is still live after the call,
  whichever of the two files failed.
\<close>

theorem decoded_buffer_leaks:
  "generate_depth_cloud example_dec8 example_dec16 ''color.png'' ''missing.png'' 1400 4
     empty_heap =
     Some (Inl (Unexpected ''Failed to read image or depth map.''),
           \<lparr>next_buffer = 1, live_buffers = {0}\<rparr>) \<and>
   generate_depth_cloud example_dec8 example_dec16 ''missing.png'' ''depth.png'' 1400 4
     empty_heap =
     Some (Inl (Unexpected ''Failed to read image or depth map.''),
           \<lparr>next_buffer = 1, live_buffers = {0}\<rparr>)"
  by (simp add: generate_depth_cloud_def stbi_load_def stbi_load_16_def example_dec8_def
      example_dec16_def allocate_def empty_heap_def image_read_error_def)

text \<open>The buffer that leaks is the one of the file that did decode.\<close>

theorem decoded_buffer_leaks_witness:
  "map_option (\<lambda>res. live_buffers (snd res))
     (generate_depth_cloud example_dec8 example_dec16 ''color.png'' ''missing.png'' 1400 4
        empty_heap) = Some {0} \<and>
   live_buffers empty_heap = {}"
  using decoded_buffer_leaks by (simp add: empty_heap_def)

text \<open>
  C8. When \<open>generate_depth_cloud\<close> returns an error, the handler of the button records the
  message and opens the error popup, and changes nothing else of the session: the displayed
  cloud, the camera with its origin, and the contents of the per-instance buffer are as
  before.
\<close>

theorem failed_generate_keeps_session:
  assumes "generate_depth_cloud dec8 dec16 (image_file_str s) (depth_file_str s)
             (ui_focal_length s) (word_of_int (ui_stride s)) hp =
           Some (Inl (Unexpected msg), hp')"
  shows "\<exists>s'. generate_button dec8 dec16 s hp = Some (Inr s', hp') \<and>
              s' = s\<lparr>last_error_message := msg, error_popup := True\<rparr> \<and>
              cloud s' = cloud s \<and> camera s' = camera s \<and>
              point_cloud_vbo s' = point_cloud_vbo s"
  using assms by (simp add: generate_button_def)

theorem failed_generate_keeps_session_witness:
  "generate_button example_dec8 example_dec16 example_session empty_heap =
     Some (Inr (example_session\<lparr>last_error_message := ''Failed to read image or depth map.'',
                               error_popup := True\<rparr>),
           \<lparr>next_buffer = 1, live_buffers = {0}\<rparr>)"
proof -
  have w: "(word_of_int 4 :: 32 word) = 4" by simp
  have run: "generate_depth_cloud example_dec8 example_dec16 (image_file_str example_session)
      (depth_file_str example_session) (ui_focal_length example_session)
      (word_of_int (ui_stride example_session)) empty_heap =
      Some (Inl (Unexpected ''Failed to read image or depth map.''),
            \<lparr>next_buffer = 1, live_buffers = {0}\<rparr>)"
    using decoded_buffer_run by (simp add: example_session_def)
  from failed_generate_keeps_session [OF run] show ?thesis by simp
qed

section \<open>Claims about the camera\<close>

text \<open>
  C9, as the code has it. A positive wheel movement divides the distance by
  \<open>1 + zoom_scale\<close>, a negative one multiplies it by \<open>1 + zoom_scale\<close>, and none leaves it;
  the result is then clamped to be at least 0, and no other field of the camera changes.
\<close>

theorem zoom_scales_distance:
  assumes "1 + zoom_scale cam \<noteq> 0"
  shows "distance (mouse_wheel y cam) =
           (if 0 < y then max 0 (distance cam / (1 + zoom_scale cam))
            else if y < 0 then max 0 (distance cam * (1 + zoom_scale cam))
            else max 0 (distance cam)) \<and>
         0 \<le> distance (mouse_wheel y cam) \<and>
         mouse_wheel y cam = cam\<lparr>distance := distance (mouse_wheel y cam)\<rparr>"
  by (simp add: mouse_wheel_def Let_def)

theorem zoom_scales_distance_witness:
  "distance (mouse_wheel 1 initial_camera) = 50 / 11 \<and>
   distance (mouse_wheel (- 1) initial_camera) = 11 / 2 \<and>
   distance (mouse_wheel 0 initial_camera) = 5"
proof -
  have z: "1 + zoom_scale initial_camera \<noteq> 0" by (simp add: initial_camera_def)
  from zoom_scales_distance [OF z, of 1] zoom_scales_distance [OF z, of "- 1"]
    zoom_scales_distance [OF z, of 0]
  show ?thesis by (simp add: initial_camera_def)
qed

text \<open>
  C9 as stated fails for a positive movement: from the distance 5 with the zoom scale
  \<open>1 / 10\<close> the code goes to \<open>50 / 11\<close>, not to \<open>5 * (1 - 1 / 10) = 9 / 2\<close>.
\<close>

theorem zoom_in_counterexample:
  "distance (mouse_wheel 1 initial_camera) = 50 / 11 \<and>
   distance initial_camera * (1 - zoom_scale initial_camera) = 9 / 2"
  by (simp add: mouse_wheel_def Let_def initial_camera_def)

end
